theory Spec2Isabelle
  imports Complex_Main "HOL-Library.Word"
begin

unbundle bit_operations_syntax

section \<open>Lua values and the Lua state\<close>

text \<open>
  The file under verification, \<^verbatim>\<open>src/LuaUtils.cpp\<close>, is host code written against the
  C API of Lua 5.2. The embedding keeps the API's view of the interpreter: a stack of
  values addressed by positive and negative indices, tables that live in a store and are
  referred to by reference (so that a table can be its own \<^verbatim>\<open>__index\<close>), and errors that
  unwind to the enclosing protected call. What the Lua runtime does inside an API call is
  written down here after the Lua 5.2 reference manual; what scripts and library functions
  do when they are called is a parameter of the model.
\<close>

type_synonym ref = nat
type_synonym u32 = "32 word"
type_synonym cint = "32 word"
type_synonym lua_Integer = "64 word"

text \<open>
  \<^verbatim>\<open>lua_Number\<close> is a C double. A finite double is represented by the rational it denotes,
  \<open>Fin 0\<close> being the positive zero; the negative zero, the two infinities and NaN are values
  of their own. (\<^verbatim>\<open>l_hash_random\<close> hashes the bytes of the double, which tell the two zeros
  apart, and asserts on NaN.)
\<close>

datatype lua_Number = Fin rat | MinusZero | PlusInfinity | MinusInfinity | NaN

text \<open>The C functions this file defines, and any other C function of the runtime by name.\<close>

datatype lua_CFunction =
    CF_ro_table_error
  | CF_l_hash_random
  | CF_l_handle_error
  | CF_pi_lua_panic
  | CF_library string

text \<open>
  \<open>LChunk name code\<close> is the function \<^verbatim>\<open>luaL_loadbuffer\<close> compiles from the buffer
  \<open>code\<close> under the chunk name \<open>name\<close>; \<open>LFunction\<close> is any other script closure.
\<close>

datatype lua_value =
    LNil
  | LBoolean bool
  | LNumber lua_Number
  | LString string
  | LTable ref
  | LCFunction lua_CFunction
  | LChunk string string
  | LFunction nat
  | LUserdata nat

datatype lua_type_tag =
    LUA_TNONE | LUA_TNIL | LUA_TBOOLEAN | LUA_TNUMBER | LUA_TSTRING
  | LUA_TTABLE | LUA_TFUNCTION | LUA_TUSERDATA

datatype lua_status =
    LUA_OK | LUA_YIELD | LUA_ERRRUN | LUA_ERRSYNTAX | LUA_ERRMEM | LUA_ERRGCMM | LUA_ERRERR

text \<open>A table maps keys to values, \<open>LNil\<close> standing for an absent key, and may carry a
  metatable.\<close>

record lua_Table =
  entries :: "lua_value \<Rightarrow> lua_value"
  metatable :: "ref option"

text \<open>
  The state: the stack of the running C function (bottom first, so index 1 is the head of
  the list), the table store with the number of tables allocated so far, the position
  prefix \<^verbatim>\<open>luaL_where(L, 1)\<close> would produce, the lines written to \<^verbatim>\<open>stderr\<close>, and the
  record of the functions entered through \<^verbatim>\<open>lua_pcall\<close>, each with the value the global
  \<^verbatim>\<open>CurrentDirectory\<close> had at that moment.
\<close>

record lua_State =
  stack :: "lua_value list"
  tables :: "ref \<Rightarrow> lua_Table"
  ntables :: nat
  where1 :: string
  stderr :: "string list"
  executed :: "(lua_value \<times> lua_value) list"

text \<open>
  How a call into this file ends: it returns; it raises a Lua error, which unwinds to the
  enclosing protected call; it reaches the host's \<^verbatim>\<open>Error()\<close>, which reports the message
  and ends the process; or the process dies on a failed \<^verbatim>\<open>assert\<close>, an \<^verbatim>\<open>abort()\<close> or the
  dereference of a null pointer.
\<close>

datatype 'a outcome =
    Ok 'a lua_State
  | Raise lua_status lua_value lua_State
  | Fatal string lua_State
  | Abort lua_State

subsection \<open>Stack access\<close>

definition lua_gettop :: "lua_State \<Rightarrow> int" where
  "lua_gettop L = int (length (stack L))"

text \<open>
  The registry and the table of globals are the tables 0 and 1 of the store. The registry
  is reached through the pseudo-index \<^verbatim>\<open>LUA_REGISTRYINDEX\<close>.
\<close>

definition registry_ref :: ref where
  "registry_ref = 0"

definition globals_ref :: ref where
  "globals_ref = 1"

definition LUA_REGISTRYINDEX :: int where
  "LUA_REGISTRYINDEX = - 1001000"

text \<open>The value at an acceptable index; \<open>None\<close> is \<^verbatim>\<open>LUA_TNONE\<close>.\<close>

definition index2adr :: "lua_State \<Rightarrow> int \<Rightarrow> lua_value option" where
  "index2adr L idx =
     (if 0 < idx \<and> idx \<le> lua_gettop L then Some (stack L ! nat (idx - 1))
      else if idx = LUA_REGISTRYINDEX then Some (LTable registry_ref)
      else if idx < 0 \<and> - idx \<le> lua_gettop L then Some (stack L ! nat (lua_gettop L + idx))
      else None)"

fun ttype :: "lua_value \<Rightarrow> lua_type_tag" where
  "ttype LNil = LUA_TNIL"
| "ttype (LBoolean b) = LUA_TBOOLEAN"
| "ttype (LNumber n) = LUA_TNUMBER"
| "ttype (LString s) = LUA_TSTRING"
| "ttype (LTable r) = LUA_TTABLE"
| "ttype (LCFunction f) = LUA_TFUNCTION"
| "ttype (LChunk n c) = LUA_TFUNCTION"
| "ttype (LFunction n) = LUA_TFUNCTION"
| "ttype (LUserdata n) = LUA_TUSERDATA"

definition lua_type :: "lua_State \<Rightarrow> int \<Rightarrow> lua_type_tag" where
  "lua_type L idx = (case index2adr L idx of None \<Rightarrow> LUA_TNONE | Some v \<Rightarrow> ttype v)"

text \<open>
  A Lua string is a sequence of bytes with a length and may hold the byte 0. Read as a C
  string (a \<^verbatim>\<open>const char *\<close> handed to \<^verbatim>\<open>std::string\<close>, to a \<^verbatim>\<open>%s\<close> or to an API function
  that takes no length) it ends before its first byte 0.
\<close>

definition c_str :: "string \<Rightarrow> string" where
  "c_str s = takeWhile (\<lambda>c. c \<noteq> CHR 0x00) s"

definition push :: "lua_State \<Rightarrow> lua_value \<Rightarrow> lua_State" where
  "push L v = L\<lparr>stack := stack L @ [v]\<rparr>"

definition lua_pushnil :: "lua_State \<Rightarrow> lua_State" where
  "lua_pushnil L = push L LNil"

definition lua_pushboolean :: "lua_State \<Rightarrow> bool \<Rightarrow> lua_State" where
  "lua_pushboolean L b = push L (LBoolean b)"

text \<open>\<^verbatim>\<open>lua_pushstring\<close> takes a C string, \<^verbatim>\<open>lua_pushlstring\<close> a buffer and its length.\<close>

definition lua_pushstring :: "lua_State \<Rightarrow> string \<Rightarrow> lua_State" where
  "lua_pushstring L s = push L (LString (c_str s))"

definition lua_pushlstring :: "lua_State \<Rightarrow> string \<Rightarrow> lua_State" where
  "lua_pushlstring L s = push L (LString s)"

definition lua_pushcfunction :: "lua_State \<Rightarrow> lua_CFunction \<Rightarrow> lua_State" where
  "lua_pushcfunction L f = push L (LCFunction f)"

definition lua_pushnumber :: "lua_State \<Rightarrow> lua_Number \<Rightarrow> lua_State" where
  "lua_pushnumber L n = push L (LNumber n)"

text \<open>\<^verbatim>\<open>lua_pushinteger\<close> takes a \<^verbatim>\<open>lua_Integer\<close>; every such value is a double.\<close>

definition lua_pushinteger :: "lua_State \<Rightarrow> lua_Integer \<Rightarrow> lua_State" where
  "lua_pushinteger L i = push L (LNumber (Fin (of_int (sint i))))"

definition lua_pop :: "lua_State \<Rightarrow> nat \<Rightarrow> lua_State" where
  "lua_pop L n = L\<lparr>stack := take (length (stack L) - n) (stack L)\<rparr>"

text \<open>
  \<^verbatim>\<open>luaL_error\<close> raises a runtime error whose message is the position of the running
  function followed by the formatted text (the caller of the model formats it, reading each
  \<^verbatim>\<open>%s\<close> argument as a C string); \<^verbatim>\<open>luaL_argerror\<close> does the same for a bad argument (the
  name of the called function is not tracked and shows as \<^verbatim>\<open>?\<close>, as Lua prints it when
  it has no name).
\<close>

definition luaL_error :: "lua_State \<Rightarrow> string \<Rightarrow> 'a outcome" where
  "luaL_error L msg = Raise LUA_ERRRUN (LString (where1 L @ msg)) L"

fun show_nat :: "nat \<Rightarrow> string" where
  "show_nat n =
     (if n < 10 then [''0123456789'' ! n] else show_nat (n div 10) @ [''0123456789'' ! (n mod 10)])"

declare show_nat.simps [simp del]

definition show_int :: "int \<Rightarrow> string" where
  "show_int i = (if i < 0 then ''-'' @ show_nat (nat (- i)) else show_nat (nat i))"

definition luaL_argerror :: "lua_State \<Rightarrow> int \<Rightarrow> string \<Rightarrow> 'a outcome" where
  "luaL_argerror L narg extramsg =
     luaL_error L (''bad argument #'' @ show_int narg @ '' to '' @ [CHR 0x27] @ ''?'' @ [CHR 0x27]
                   @ '' ('' @ extramsg @ '')'')"

section \<open>Doubles\<close>

text \<open>
  The arithmetic of \<^verbatim>\<open>l_hash_random\<close> is done in IEEE-754 binary64 with rounding to
  nearest, ties to even. A product is the exact product rounded to 53 significant bits
  (all values here are far from the overflow and underflow thresholds).
\<close>

text \<open>The number of binary digits of a positive integer.\<close>

function bitlen :: "int \<Rightarrow> int" where
  "bitlen k = (if k \<le> 0 then 0 else 1 + bitlen (k div 2))"
  by pat_completeness auto
termination
  by (relation "measure nat") auto

declare bitlen.simps [simp del]

text \<open>The binary exponent \<open>\<lfloor>log\<^sub>2 q\<rfloor>\<close> of a positive rational.\<close>

definition binexp :: "rat \<Rightarrow> int" where
  "binexp q = (if 1 \<le> q then bitlen \<lfloor>q\<rfloor> - 1 else - bitlen (\<lceil>1 / q\<rceil> - 1))"

definition round_half_even :: "rat \<Rightarrow> int" where
  "round_half_even q =
     (let f = \<lfloor>q\<rfloor>; r = q - of_int f
      in if r < 1 / 2 then f else if 1 / 2 < r then f + 1
         else if even f then f else f + 1)"

definition round_double :: "rat \<Rightarrow> rat" where
  "round_double q =
     (if q = 0 then 0
      else let u = 2 powi (binexp \<bar>q\<bar> - 52)
           in sgn q * of_int (round_half_even (\<bar>q\<bar> / u)) * u)"

definition double_mul :: "rat \<Rightarrow> rat \<Rightarrow> rat" where
  "double_mul a b = round_double (a * b)"

text \<open>A C \<^verbatim>\<open>int\<close> converted to double (exact), and a double converted to \<^verbatim>\<open>int\<close>
  (truncation towards zero).\<close>

definition int2double :: "cint \<Rightarrow> rat" where
  "int2double i = of_int (sint i)"

definition trunc :: "rat \<Rightarrow> int" where
  "trunc q = (if 0 \<le> q then \<lfloor>q\<rfloor> else \<lceil>q\<rceil>)"

definition double2int :: "rat \<Rightarrow> cint" where
  "double2int q = word_of_int (trunc q)"

text \<open>
  The conversion behind \<^verbatim>\<open>lua_tointeger\<close>, a C cast from double to the 64-bit
  \<^verbatim>\<open>ptrdiff_t\<close>. Outside the range of the target the cast is undefined in C; the model
  gives what the x86-64 conversion instruction gives there.
\<close>

definition lua_number2integer :: "lua_Number \<Rightarrow> lua_Integer" where
  "lua_number2integer n =
     (case n of
        Fin q \<Rightarrow> (if - (2 ^ 63) \<le> trunc q \<and> trunc q < 2 ^ 63 then word_of_int (trunc q)
                  else 0x8000000000000000)
      | MinusZero \<Rightarrow> 0
      | PlusInfinity \<Rightarrow> 0x8000000000000000
      | MinusInfinity \<Rightarrow> 0x8000000000000000
      | NaN \<Rightarrow> 0x8000000000000000)"

section \<open>The deterministic randomness source\<close>

text \<open>
  What \<^verbatim>\<open>l_hash_random\<close> takes from outside this file: the hash
  \<^verbatim>\<open>lookup3_hashlittle2(key, length, &pc, &pb)\<close> (its two words are read as seeds and
  written as results), the bytes of a double in memory, and Lua's conversions of a string to
  a number and of a number to a string.
\<close>

record platform =
  lookup3_hashlittle2 :: "string \<Rightarrow> u32 \<Rightarrow> u32 \<Rightarrow> u32 \<times> u32"
  double_bytes :: "lua_Number \<Rightarrow> string"
  luaO_str2d :: "string \<Rightarrow> lua_Number option"
  lua_number2str :: "lua_Number \<Rightarrow> string"

definition lua_tointeger :: "platform \<Rightarrow> lua_State \<Rightarrow> int \<Rightarrow> lua_Integer" where
  "lua_tointeger P L idx =
     (case index2adr L idx of
        Some (LNumber n) \<Rightarrow> lua_number2integer n
      | Some (LString s) \<Rightarrow>
          (case luaO_str2d P s of Some n \<Rightarrow> lua_number2integer n | None \<Rightarrow> 0)
      | _ \<Rightarrow> 0)"

text \<open>The switch on the type of argument 1 (lines 33 to 54): the two hash words, or the way
  the call ends.\<close>

definition hash_of_seed :: "platform \<Rightarrow> lua_State \<Rightarrow> int outcome + (u32 \<times> u32)" where
  "hash_of_seed P L =
     (case index2adr L 1 of
        Some LNil \<Rightarrow> Inr (0xBF42B131, 0x2A40F7F2)
      | Some (LString str) \<Rightarrow> Inr (lookup3_hashlittle2 P str 0 0)
      | Some (LNumber n) \<Rightarrow>
          (if n = NaN then Inl (Abort L)
           else Inr (lookup3_hashlittle2 P (double_bytes P n) 0 0))
      | _ \<Rightarrow> Inl (luaL_error L ''expected a string or a number for argument 1''))"

text \<open>Lines 57 and 58: the value in the range \<open>0 \<le> x < 1\<close>.\<close>

definition hash_fraction :: "u32 \<Rightarrow> u32 \<Rightarrow> rat" where
  "hash_fraction hashA hashB =
     (of_int (uint (drop_bit 5 hashA)) * 67108864 + of_int (uint (drop_bit 6 hashB)))
       * (1 / 9007199254740992)"

text \<open>Line 76: \<^verbatim>\<open>m + int(x * (n - m + 1))\<close> on 32-bit \<^verbatim>\<open>int\<close>, wrapping on overflow.\<close>

definition scale_to_range :: "rat \<Rightarrow> cint \<Rightarrow> cint \<Rightarrow> cint" where
  "scale_to_range x m n = m + double2int (double_mul x (int2double (n - m + 1)))"

definition l_hash_random :: "platform \<Rightarrow> lua_State \<Rightarrow> int outcome" where
  "l_hash_random P L =
     (let numargs = lua_gettop L in
      if lua_type L 1 = LUA_TNONE then luaL_argerror L 1 ''value expected''
      else case hash_of_seed P L of
        Inl out \<Rightarrow> out
      | Inr (hashA, hashB) \<Rightarrow>
          (let x = hash_fraction hashA hashB in
           if numargs = 1 then Ok 1 (lua_pushnumber L (Fin x))
           else if numargs = 3 then
             (let m = ucast (lua_tointeger P L 2); n = ucast (lua_tointeger P L 3)
              in Ok 1 (lua_pushinteger L (scast (scale_to_range x m n))))
           else if numargs = 2 then
             (let m = 1; n = ucast (lua_tointeger P L 2)
              in Ok 1 (lua_pushinteger L (scast (scale_to_range x m n))))
           else if numargs > 3 then luaL_error L ''unknown argument to hash_random''
           else Abort L))"

section \<open>Tables, calls and protected calls\<close>

subsection \<open>What the runtime and the scripts contribute\<close>

text \<open>The library openers of the Lua distribution that \<^verbatim>\<open>STANDARD_LIBS\<close> can name.\<close>

datatype lua_opener =
    luaopen_base | luaopen_coroutine | luaopen_table | luaopen_string | luaopen_bit32
  | luaopen_math | luaopen_debug | luaopen_package | luaopen_io | luaopen_os

text \<open>
  Three things are taken from the runtime as given: whether a buffer compiles
  (\<open>compile_error code name\<close> is the error message when it does not), what a call of a
  script function or of a library function does (\<open>call_script f args L\<close>: the results, or
  the way the call ends, with the store it leaves), and the entries each library opener
  registers.
\<close>

record scripts =
  compile_error :: "string \<Rightarrow> string \<Rightarrow> lua_value option"
  call_script :: "lua_value \<Rightarrow> lua_value list \<Rightarrow> lua_State \<Rightarrow> lua_value list outcome"
  library :: "lua_opener \<Rightarrow> (string \<times> lua_value) list"

text \<open>Sequencing: the second step runs when the first returns.\<close>

definition and_then :: "'a outcome \<Rightarrow> ('a \<Rightarrow> lua_State \<Rightarrow> 'b outcome) \<Rightarrow> 'b outcome" where
  "and_then m f =
     (case m of
        Ok a L \<Rightarrow> f a L
      | Raise st e L \<Rightarrow> Raise st e L
      | Fatal msg L \<Rightarrow> Fatal msg L
      | Abort L \<Rightarrow> Abort L)"

subsection \<open>Raw table access\<close>

text \<open>Keys are compared by raw equality, under which the two zeros are one key.\<close>

fun luaH_key :: "lua_value \<Rightarrow> lua_value" where
  "luaH_key (LNumber MinusZero) = LNumber (Fin 0)"
| "luaH_key k = k"

definition luaH_get :: "lua_State \<Rightarrow> ref \<Rightarrow> lua_value \<Rightarrow> lua_value" where
  "luaH_get L r k = entries (tables L r) (luaH_key k)"

definition luaH_set :: "lua_State \<Rightarrow> ref \<Rightarrow> lua_value \<Rightarrow> lua_value \<Rightarrow> lua_State" where
  "luaH_set L r k v =
     L\<lparr>tables := (tables L)(r := (tables L r)
         \<lparr>entries := (entries (tables L r))(luaH_key k := v)\<rparr>)\<rparr>"

text \<open>An error raised by the runtime while a C function is running carries no position.\<close>

definition luaG_runerror :: "lua_State \<Rightarrow> string \<Rightarrow> 'a outcome" where
  "luaG_runerror L msg = Raise LUA_ERRRUN (LString msg) L"

fun lua_typename :: "lua_type_tag \<Rightarrow> string" where
  "lua_typename LUA_TNONE = ''no value''"
| "lua_typename LUA_TNIL = ''nil''"
| "lua_typename LUA_TBOOLEAN = ''boolean''"
| "lua_typename LUA_TNUMBER = ''number''"
| "lua_typename LUA_TSTRING = ''string''"
| "lua_typename LUA_TTABLE = ''table''"
| "lua_typename LUA_TFUNCTION = ''function''"
| "lua_typename LUA_TUSERDATA = ''userdata''"

definition luaG_typeerror :: "lua_State \<Rightarrow> lua_value \<Rightarrow> string \<Rightarrow> 'a outcome" where
  "luaG_typeerror L v operation =
     luaG_runerror L (''attempt to '' @ operation @ '' a '' @ lua_typename (ttype v) @ '' value'')"

text \<open>Storing under a key: \<^verbatim>\<open>nil\<close> and NaN are not keys.\<close>

definition table_set :: "lua_State \<Rightarrow> ref \<Rightarrow> lua_value \<Rightarrow> lua_value \<Rightarrow> unit outcome" where
  "table_set L r k v =
     (if k = LNil then luaG_runerror L ''table index is nil''
      else if k = LNumber NaN then luaG_runerror L ''table index is NaN''
      else Ok () (luaH_set L r k v))"

text \<open>The metamethod a table has for an event (\<open>LNil\<close> when it has none).\<close>

definition fasttm :: "lua_State \<Rightarrow> ref \<Rightarrow> string \<Rightarrow> lua_value" where
  "fasttm L r event =
     (case metatable (tables L r) of
        None \<Rightarrow> LNil
      | Some mt \<Rightarrow> luaH_get L mt (LString event))"

subsection \<open>The C functions of this file that call nothing back\<close>

text \<open>Lines 6 to 10.\<close>

definition ro_table_error :: "lua_State \<Rightarrow> int outcome" where
  "ro_table_error L = luaL_error L ''Attempt to modify read-only table''"

text \<open>
  A C function runs on a stack of its own that holds its arguments; the number it returns
  says how many values on top of that stack are its results. The caller's stack is put
  back when the call ends.
\<close>

definition cfunction_call ::
  "(lua_State \<Rightarrow> int outcome) \<Rightarrow> lua_value list \<Rightarrow> lua_State \<Rightarrow> lua_value list outcome" where
  "cfunction_call f args L =
     (case f (L\<lparr>stack := args\<rparr>) of
        Ok n Lc \<Rightarrow> Ok (drop (length (stack Lc) - nat n) (stack Lc)) (Lc\<lparr>stack := stack L\<rparr>)
      | Raise st e Lc \<Rightarrow> Raise st e (Lc\<lparr>stack := stack L\<rparr>)
      | Fatal msg Lc \<Rightarrow> Fatal msg (Lc\<lparr>stack := stack L\<rparr>)
      | Abort Lc \<Rightarrow> Abort (Lc\<lparr>stack := stack L\<rparr>))"

text \<open>
  A call of a script or library function: of the state it leaves, the store is taken; the
  caller's stack, the output and the record of protected calls are the caller's own.
\<close>

definition keep_store :: "lua_State \<Rightarrow> lua_State \<Rightarrow> lua_State" where
  "keep_store L L' = L\<lparr>tables := tables L', ntables := ntables L'\<rparr>"

definition run_function ::
  "scripts \<Rightarrow> lua_value \<Rightarrow> lua_value list \<Rightarrow> lua_State \<Rightarrow> lua_value list outcome" where
  "run_function S f args L =
     (case call_script S f args L of
        Ok rs L' \<Rightarrow> Ok rs (keep_store L L')
      | Raise st e L' \<Rightarrow> Raise st e (keep_store L L')
      | Fatal msg L' \<Rightarrow> Fatal msg (keep_store L L')
      | Abort L' \<Rightarrow> Abort (keep_store L L'))"

text \<open>
  Calling a value. The two message handlers of this file are dispatched one level up
  (\<open>call_value\<close> below); a value that is no function and carries no \<^verbatim>\<open>__call\<close> raises.
\<close>

definition call_leaf ::
  "platform \<Rightarrow> scripts \<Rightarrow> lua_value \<Rightarrow> lua_value list \<Rightarrow> lua_State \<Rightarrow> lua_value list outcome" where
  "call_leaf P S f args L =
     (case f of
        LCFunction CF_ro_table_error \<Rightarrow> cfunction_call ro_table_error args L
      | LCFunction CF_l_hash_random \<Rightarrow> cfunction_call (l_hash_random P) args L
      | LCFunction c \<Rightarrow> run_function S f args L
      | LChunk name code \<Rightarrow> run_function S f args L
      | LFunction k \<Rightarrow> run_function S f args L
      | LTable r \<Rightarrow> run_function S f args L
      | LUserdata u \<Rightarrow> run_function S f args L
      | _ \<Rightarrow> luaG_typeerror L f ''call'')"

subsection \<open>Indexing with metamethods\<close>

text \<open>
  \<^verbatim>\<open>luaV_gettable\<close> and \<^verbatim>\<open>luaV_settable\<close> of the Lua 5.2 virtual machine: a lookup that
  misses follows \<^verbatim>\<open>__index\<close>, an assignment to a key the table does not hold follows
  \<^verbatim>\<open>__newindex\<close>, a function there is called and a table there is tried in turn, for at most
  \<^verbatim>\<open>MAXTAGLOOP\<close> rounds. Metatables of values other than tables are not modelled.
\<close>

definition MAXTAGLOOP :: nat where
  "MAXTAGLOOP = 100"

fun gettable_loop ::
  "platform \<Rightarrow> scripts \<Rightarrow> nat \<Rightarrow> lua_State \<Rightarrow> lua_value \<Rightarrow> lua_value \<Rightarrow> lua_value outcome" where
  "gettable_loop P S 0 L t key = luaG_runerror L ''loop in gettable''"
| "gettable_loop P S (Suc loop) L t key =
     (case t of
        LTable r \<Rightarrow>
          (let res = luaH_get L r key; tm = fasttm L r ''__index'' in
           if res \<noteq> LNil \<or> tm = LNil then Ok res L
           else if ttype tm = LUA_TFUNCTION then
             and_then (call_leaf P S tm [t, key] L) (\<lambda>rs L'. Ok (hd (rs @ [LNil])) L')
           else gettable_loop P S loop L tm key)
      | _ \<Rightarrow> luaG_typeerror L t ''index'')"

definition luaV_gettable ::
  "platform \<Rightarrow> scripts \<Rightarrow> lua_State \<Rightarrow> lua_value \<Rightarrow> lua_value \<Rightarrow> lua_value outcome" where
  "luaV_gettable P S L t key = gettable_loop P S MAXTAGLOOP L t key"

fun settable_loop ::
  "platform \<Rightarrow> scripts \<Rightarrow> nat \<Rightarrow> lua_State \<Rightarrow> lua_value \<Rightarrow> lua_value \<Rightarrow> lua_value \<Rightarrow> unit outcome" where
  "settable_loop P S 0 L t key val = luaG_runerror L ''loop in settable''"
| "settable_loop P S (Suc loop) L t key val =
     (case t of
        LTable r \<Rightarrow>
          (let oldval = luaH_get L r key; tm = fasttm L r ''__newindex'' in
           if oldval \<noteq> LNil \<or> tm = LNil then table_set L r key val
           else if ttype tm = LUA_TFUNCTION then
             and_then (call_leaf P S tm [t, key, val] L) (\<lambda>rs L'. Ok () L')
           else settable_loop P S loop L tm key val)
      | _ \<Rightarrow> luaG_typeerror L t ''index'')"

definition luaV_settable ::
  "platform \<Rightarrow> scripts \<Rightarrow> lua_State \<Rightarrow> lua_value \<Rightarrow> lua_value \<Rightarrow> lua_value \<Rightarrow> unit outcome" where
  "luaV_settable P S L t key val = settable_loop P S MAXTAGLOOP L t key val"

subsection \<open>The C API\<close>

definition index2value :: "lua_State \<Rightarrow> int \<Rightarrow> lua_value" where
  "index2value L idx = (case index2adr L idx of Some v \<Rightarrow> v | None \<Rightarrow> LNil)"

definition lua_pushvalue :: "lua_State \<Rightarrow> int \<Rightarrow> lua_State" where
  "lua_pushvalue L idx = push L (index2value L idx)"

definition lua_newtable :: "lua_State \<Rightarrow> lua_State" where
  "lua_newtable L =
     push (L\<lparr>tables := (tables L)(ntables L := \<lparr>entries = (\<lambda>k. LNil), metatable = None\<rparr>),
             ntables := Suc (ntables L)\<rparr>)
          (LTable (ntables L))"

text \<open>\<^verbatim>\<open>lua_rawset(L, idx)\<close>: \<open>t[k] = v\<close> without metamethods, \<open>v\<close> on top and \<open>k\<close> below it;
  both are popped. Its target must be a table.\<close>

definition lua_rawset :: "lua_State \<Rightarrow> int \<Rightarrow> unit outcome" where
  "lua_rawset L idx =
     (case index2adr L idx of
        Some (LTable r) \<Rightarrow>
          (if length (stack L) < 2 then Abort L
           else and_then (table_set L r (index2value L (- 2)) (index2value L (- 1)))
                  (\<lambda>u L'. Ok () (lua_pop L' 2)))
      | _ \<Rightarrow> Abort L)"

text \<open>\<^verbatim>\<open>lua_setmetatable(L, idx)\<close>: pops a table or \<^verbatim>\<open>nil\<close> and makes it the metatable of
  the value at \<open>idx\<close>.\<close>

definition lua_setmetatable :: "lua_State \<Rightarrow> int \<Rightarrow> lua_State" where
  "lua_setmetatable L idx =
     (case index2adr L idx of
        Some (LTable r) \<Rightarrow>
          lua_pop (L\<lparr>tables := (tables L)(r := (tables L r)
                     \<lparr>metatable := (case index2value L (- 1) of LTable mt \<Rightarrow> Some mt | _ \<Rightarrow> None)\<rparr>)\<rparr>) 1
      | _ \<Rightarrow> lua_pop L 1)"

definition lua_getfield :: "platform \<Rightarrow> scripts \<Rightarrow> lua_State \<Rightarrow> int \<Rightarrow> string \<Rightarrow> unit outcome" where
  "lua_getfield P S L idx k =
     and_then (luaV_gettable P S L (index2value L idx) (LString k)) (\<lambda>v L'. Ok () (push L' v))"

definition lua_setfield :: "platform \<Rightarrow> scripts \<Rightarrow> lua_State \<Rightarrow> int \<Rightarrow> string \<Rightarrow> unit outcome" where
  "lua_setfield P S L idx k =
     and_then (luaV_settable P S L (index2value L idx) (LString k) (index2value L (- 1)))
       (\<lambda>u L'. Ok () (lua_pop L' 1))"

definition lua_getglobal :: "platform \<Rightarrow> scripts \<Rightarrow> lua_State \<Rightarrow> string \<Rightarrow> unit outcome" where
  "lua_getglobal P S L var =
     and_then (luaV_gettable P S L (LTable globals_ref) (LString var)) (\<lambda>v L'. Ok () (push L' v))"

definition lua_setglobal :: "platform \<Rightarrow> scripts \<Rightarrow> lua_State \<Rightarrow> string \<Rightarrow> unit outcome" where
  "lua_setglobal P S L var =
     and_then (luaV_settable P S L (LTable globals_ref) (LString var) (index2value L (- 1)))
       (\<lambda>u L'. Ok () (lua_pop L' 1))"




text \<open>
  \<^verbatim>\<open>lua_tostring\<close>: the bytes of the string, the text of a number, or a null pointer. (It
  also turns a number into a string in its stack slot; every slot it is applied to in this
  file is popped afterwards or belongs to the frame of a C function that is about to end, so
  the slot is left as it is here.)
\<close>

fun luaV_tostring :: "platform \<Rightarrow> lua_value \<Rightarrow> string option" where
  "luaV_tostring P (LString s) = Some s"
| "luaV_tostring P (LNumber n) = Some (lua_number2str P n)"
| "luaV_tostring P v = None"

definition lua_tostring :: "platform \<Rightarrow> lua_State \<Rightarrow> int \<Rightarrow> string option" where
  "lua_tostring P L idx =
     (case index2adr L idx of
        Some v \<Rightarrow> luaV_tostring P v
      | None \<Rightarrow> None)"

text \<open>\<^verbatim>\<open>luaL_loadbuffer\<close> takes the buffer with its size and the chunk name as a C string.\<close>

definition luaL_loadbuffer :: "scripts \<Rightarrow> lua_State \<Rightarrow> string \<Rightarrow> string \<Rightarrow> lua_status \<times> lua_State" where
  "luaL_loadbuffer S L code name =
     (case compile_error S code (c_str name) of
        None \<Rightarrow> (LUA_OK, push L (LChunk (c_str name) code))
      | Some e \<Rightarrow> (LUA_ERRSYNTAX, push L e))"

definition adjust_results :: "int \<Rightarrow> lua_value list \<Rightarrow> lua_value list" where
  "adjust_results nresults rs =
     (if nresults < 0 then rs else take (nat nresults) (rs @ replicate (nat nresults) LNil))"

definition current_directory :: "lua_State \<Rightarrow> lua_value" where
  "current_directory L = luaH_get L globals_ref (LString ''CurrentDirectory'')"

text \<open>
  \<^verbatim>\<open>lua_call\<close> and \<^verbatim>\<open>lua_pcall\<close>, over a given way of calling a value. The function sits
  below its \<open>nargs\<close> arguments; both are replaced by the results. A protected call catches
  the error: the message handler at \<open>errfunc\<close>, if there is one and the error is not a
  memory error, is called with the error value and what it returns becomes the message; an
  error inside the handler gives \<^verbatim>\<open>LUA_ERRERR\<close>.
\<close>

definition lua_call_with ::
  "(lua_value \<Rightarrow> lua_value list \<Rightarrow> lua_State \<Rightarrow> lua_value list outcome) \<Rightarrow>
   lua_State \<Rightarrow> int \<Rightarrow> int \<Rightarrow> unit outcome" where
  "lua_call_with callf L nargs nresults =
     (if nargs < 0 \<or> lua_gettop L < nargs + 1 then Abort L
      else let fpos = nat (lua_gettop L - nargs - 1);
               base = take fpos (stack L)
           in and_then (callf (stack L ! fpos) (drop (Suc fpos) (stack L)) L)
                (\<lambda>rs L'. Ok () (L'\<lparr>stack := base @ adjust_results nresults rs\<rparr>)))"

definition lua_pcall_with ::
  "(lua_value \<Rightarrow> lua_value list \<Rightarrow> lua_State \<Rightarrow> lua_value list outcome) \<Rightarrow>
   lua_State \<Rightarrow> int \<Rightarrow> int \<Rightarrow> int \<Rightarrow> lua_status outcome" where
  "lua_pcall_with callf L nargs nresults errfunc =
     (if nargs < 0 \<or> lua_gettop L < nargs + 1 then Abort L
      else let fpos = nat (lua_gettop L - nargs - 1);
               f = stack L ! fpos;
               base = take fpos (stack L);
               handler = (if errfunc = 0 then None else index2adr L errfunc);
               L0 = L\<lparr>executed := executed L @ [(f, current_directory L)]\<rparr>
           in case callf f (drop (Suc fpos) (stack L)) L0 of
                Ok rs L1 \<Rightarrow> Ok LUA_OK (L1\<lparr>stack := base @ adjust_results nresults rs\<rparr>)
              | Raise st e L1 \<Rightarrow>
                  (case handler of
                     None \<Rightarrow> Ok st (L1\<lparr>stack := base @ [e]\<rparr>)
                   | Some h \<Rightarrow>
                       if st = LUA_ERRMEM then Ok st (L1\<lparr>stack := base @ [e]\<rparr>)
                       else (case callf h [e] L1 of
                               Ok rs L2 \<Rightarrow> Ok st (L2\<lparr>stack := base @ [hd (rs @ [LNil])]\<rparr>)
                             | Raise st' e' L2 \<Rightarrow> Ok LUA_ERRERR (L2\<lparr>stack := base @ [e']\<rparr>)
                             | Fatal msg L2 \<Rightarrow> Fatal msg L2
                             | Abort L2 \<Rightarrow> Abort L2))
              | Fatal msg L1 \<Rightarrow> Fatal msg L1
              | Abort L1 \<Rightarrow> Abort L1)"

subsection \<open>The two message handlers\<close>

text \<open>
  Lines 143 to 150: the handler of the recoverable tier hands the error value to the
  function the host registered as \<^verbatim>\<open>PiDebug.error_handler\<close>.
\<close>

definition l_handle_error :: "platform \<Rightarrow> scripts \<Rightarrow> lua_State \<Rightarrow> int outcome" where
  "l_handle_error P S L =
     and_then (lua_getfield P S L LUA_REGISTRYINDEX ''PiDebug'') (\<lambda>u L1.
     and_then (lua_getfield P S L1 (- 1) ''error_handler'') (\<lambda>u L2.
     and_then (lua_pcall_with (call_leaf P S) (lua_pushvalue L2 1) 1 1 0) (\<lambda>st L3.
     Ok 1 L3)))"

text \<open>
  Lines 152 to 173. \<^verbatim>\<open>luaL_where(L, 0)\<close> describes the running function, which is a C
  function here, so the position is empty. The three texts are appended to a \<^verbatim>\<open>std::string\<close>
  as C strings, and the whole goes to \<^verbatim>\<open>Error()\<close> through \<^verbatim>\<open>%s\<close>. \<^verbatim>\<open>Error()\<close> does not
  return. Appending the null pointer \<^verbatim>\<open>lua_tostring\<close> gives for a value that is neither
  string nor number ends the process.
\<close>

definition luaL_where0 :: "lua_State \<Rightarrow> lua_State" where
  "luaL_where0 L = push L (LString [])"

definition pi_lua_panic :: "platform \<Rightarrow> scripts \<Rightarrow> lua_State \<Rightarrow> int outcome" where
  "pi_lua_panic P S L =
     (let L1 = luaL_where0 L in
      case lua_tostring P L1 (- 1) of
        None \<Rightarrow> Abort L1
      | Some position \<Rightarrow>
     (let L2 = lua_pop L1 1 in
      case lua_tostring P L2 (- 1) of
        None \<Rightarrow> Abort L2
      | Some msg \<Rightarrow>
     and_then (lua_getglobal P S (lua_pop L2 1) ''debug'') (\<lambda>u L3.
     and_then (lua_getfield P S L3 (- 1) ''traceback'') (\<lambda>u L4.
     and_then (lua_call_with (call_leaf P S) L4 0 1) (\<lambda>u L5.
     case lua_tostring P L5 (- 1) of
       None \<Rightarrow> Abort L5
     | Some traceback \<Rightarrow>
         (let errorMsg = c_str position @ c_str msg @ [CHR 0x0A] @ c_str traceback @ [CHR 0x0A]
          in Fatal (c_str errorMsg) L5))))))"

definition call_value ::
  "platform \<Rightarrow> scripts \<Rightarrow> lua_value \<Rightarrow> lua_value list \<Rightarrow> lua_State \<Rightarrow> lua_value list outcome" where
  "call_value P S f args L =
     (case f of
        LCFunction CF_l_handle_error \<Rightarrow> cfunction_call (l_handle_error P S) args L
      | LCFunction CF_pi_lua_panic \<Rightarrow> cfunction_call (pi_lua_panic P S) args L
      | _ \<Rightarrow> call_leaf P S f args L)"

definition lua_pcall ::
  "platform \<Rightarrow> scripts \<Rightarrow> lua_State \<Rightarrow> int \<Rightarrow> int \<Rightarrow> int \<Rightarrow> lua_status outcome" where
  "lua_pcall P S L nargs nresults errfunc =
     lua_pcall_with (call_value P S) L nargs nresults errfunc"

section \<open>The host functions of \<^verbatim>\<open>LuaUtils.cpp\<close>\<close>

subsection \<open>The read-only table wrapper\<close>

text \<open>Lines 12 to 25. The table to protect is on top of the stack.\<close>

definition pi_lua_table_ro :: "lua_State \<Rightarrow> unit outcome" where
  "pi_lua_table_ro L =
     and_then (lua_rawset (lua_pushvalue (lua_pushstring (lua_newtable L) ''__index'') (- 3)) (- 3))
       (\<lambda>u L1.
     and_then (lua_rawset (lua_pushcfunction (lua_pushstring L1 ''__newindex'') CF_ro_table_error) (- 3))
       (\<lambda>u L2.
     and_then (lua_rawset (lua_pushboolean (lua_pushstring L2 ''__metatable'') False) (- 3))
       (\<lambda>u L3.
     Ok () (lua_setmetatable L3 (- 2)))))"

subsection \<open>The standard facility allowlist\<close>

text \<open>Lines 81 to 90.\<close>

definition STANDARD_LIBS :: "(string \<times> lua_opener) list" where
  "STANDARD_LIBS =
     [(''_G'', luaopen_base),
      (''coroutine'', luaopen_coroutine),
      (''table'', luaopen_table),
      (''string'', luaopen_string),
      (''bit32'', luaopen_bit32),
      (''math'', luaopen_math),
      (''debug'', luaopen_debug)]"

text \<open>
  An opener registers its entries one after the other. \<^verbatim>\<open>luaopen_base\<close> registers them
  in the table of globals, after setting \<^verbatim>\<open>_G\<close> there, and returns that table; every other
  opener returns a new table.
\<close>

definition register_entries :: "lua_State \<Rightarrow> ref \<Rightarrow> (string \<times> lua_value) list \<Rightarrow> lua_State" where
  "register_entries L r kvs = foldl (\<lambda>L' (k, v). luaH_set L' r (LString k) v) L kvs"

definition open_library :: "scripts \<Rightarrow> lua_State \<Rightarrow> lua_opener \<Rightarrow> lua_State" where
  "open_library S L openf =
     (if openf = luaopen_base then
        push (register_entries (luaH_set L globals_ref (LString ''_G'') (LTable globals_ref))
                globals_ref (library S openf))
             (LTable globals_ref)
      else register_entries (lua_newtable L) (ntables L) (library S openf))"

text \<open>\<^verbatim>\<open>luaL_getsubtable\<close> and \<^verbatim>\<open>luaL_requiref\<close> of the auxiliary library.\<close>

definition luaL_getsubtable :: "platform \<Rightarrow> scripts \<Rightarrow> lua_State \<Rightarrow> int \<Rightarrow> string \<Rightarrow> unit outcome" where
  "luaL_getsubtable P S L idx fname =
     and_then (lua_getfield P S L idx fname) (\<lambda>u L1.
       if lua_type L1 (- 1) = LUA_TTABLE then Ok () L1
       else lua_setfield P S (lua_pushvalue (lua_newtable (lua_pop L1 1)) (- 1)) idx fname)"

definition luaL_requiref ::
  "platform \<Rightarrow> scripts \<Rightarrow> lua_State \<Rightarrow> string \<Rightarrow> lua_opener \<Rightarrow> bool \<Rightarrow> unit outcome" where
  "luaL_requiref P S L modname openf glb =
     (let L1 = open_library S L openf in
      and_then (luaL_getsubtable P S L1 LUA_REGISTRYINDEX ''_LOADED'') (\<lambda>u L2.
      and_then (lua_setfield P S (lua_pushvalue L2 (- 2)) (- 2) modname) (\<lambda>u L3.
      let L4 = lua_pop L3 1 in
      if glb then lua_setglobal P S (lua_pushvalue L4 (- 1)) modname else Ok () L4)))"

text \<open>Lines 116 to 119, the loop over \<^verbatim>\<open>STANDARD_LIBS\<close>.\<close>

fun open_libs ::
  "platform \<Rightarrow> scripts \<Rightarrow> lua_State \<Rightarrow> (string \<times> lua_opener) list \<Rightarrow> unit outcome" where
  "open_libs P S L [] = Ok () L"
| "open_libs P S L (lib # libs) =
     and_then (luaL_requiref P S L (fst lib) (snd lib) True) (\<lambda>u L1.
     open_libs P S (lua_pop L1 1) libs)"

text \<open>Lines 114 to 141.\<close>

definition pi_lua_open_standard_base :: "platform \<Rightarrow> scripts \<Rightarrow> lua_State \<Rightarrow> unit outcome" where
  "pi_lua_open_standard_base P S L =
     and_then (open_libs P S L STANDARD_LIBS) (\<lambda>u L1.
     and_then (lua_setglobal P S (lua_pushnil L1) ''dofile'') (\<lambda>u L2.
     and_then (lua_setglobal P S (lua_pushnil L2) ''loadfile'') (\<lambda>u L3.
     and_then (lua_getglobal P S L3 ''math'') (\<lambda>u L4.
     and_then (lua_setfield P S (lua_pushnil L4) (- 2) ''random'') (\<lambda>u L5.
     and_then (lua_setfield P S (lua_pushnil L5) (- 2) ''randomseed'') (\<lambda>u L6.
     and_then (lua_getfield P S L6 (- 1) ''rad'') (\<lambda>u L7.
     if lua_type L7 (- 1) \<noteq> LUA_TFUNCTION then Abort L7
     else
     and_then (lua_setfield P S L7 (- 2) ''deg2rad'') (\<lambda>u L8.
     and_then (lua_setfield P S (lua_pushcfunction L8 CF_l_hash_random) (- 2) ''hash_random'') (\<lambda>u L9.
     Ok () (lua_pop L9 1))))))))))"

subsection \<open>The protected call of the recoverable tier\<close>


subsection \<open>The file service\<close>

text \<open>
  The file service is outside this file. Looking up a path gives an entry: its
  \<^verbatim>\<open>FileInfo\<close>, the bytes \<^verbatim>\<open>Read()\<close> returns (\<open>None\<close> for the null pointer it returns when
  the file cannot be read), and, for a directory, the entries the enumerator yields for it,
  in the enumerator's order. A subdirectory entry carries its own entries, so the walk of a
  tree is a recursion over the entry.
\<close>

datatype file_type = FT_DIR | FT_FILE | FT_NON_EXISTENT | FT_SPECIAL

record FileInfo =
  GetPath :: string
  GetDir :: string
  GetAbsolutePath :: string
  ftype :: file_type

definition IsDir :: "FileInfo \<Rightarrow> bool" where
  "IsDir info = (ftype info = FT_DIR)"

definition IsFile :: "FileInfo \<Rightarrow> bool" where
  "IsFile info = (ftype info = FT_FILE)"

definition Exists :: "FileInfo \<Rightarrow> bool" where
  "Exists info = (ftype info \<noteq> FT_NON_EXISTENT)"

datatype fs_entry = Entry FileInfo "string option" "fs_entry list"

type_synonym FileSource = "string \<Rightarrow> fs_entry"

definition Lookup :: "FileSource \<Rightarrow> string \<Rightarrow> FileInfo" where
  "Lookup fs path = (case fs path of Entry info content children \<Rightarrow> info)"

definition ReadFile :: "FileSource \<Rightarrow> string \<Rightarrow> (FileInfo \<times> string) option" where
  "ReadFile fs path =
     (case fs path of
        Entry info content children \<Rightarrow>
          (if IsFile info then map_option (\<lambda>code. (info, code)) content else None))"

definition FileEnumerator :: "FileSource \<Rightarrow> string \<Rightarrow> fs_entry list" where
  "FileEnumerator fs path =
     (case fs path of Entry info content children \<Rightarrow> if IsDir info then children else [])"

text \<open>The test of lines 260 and 286: longer than four characters and ending in \<^verbatim>\<open>.lua\<close>.\<close>

definition has_lua_suffix :: "string \<Rightarrow> bool" where
  "has_lua_suffix fpath = (length fpath > 4 \<and> drop (length fpath - 4) fpath = ''.lua'')"

subsection \<open>The script loader\<close>

text \<open>A line written to \<^verbatim>\<open>stderr\<close>; the caller formats it, reading each \<^verbatim>\<open>%s\<close> argument
  as a C string.\<close>

definition fprintf_stderr :: "lua_State \<Rightarrow> string \<Rightarrow> lua_State" where
  "fprintf_stderr L line = L\<lparr>stderr := stderr L @ [line]\<rparr>"

text \<open>
  Lines 188 to 221, \<^verbatim>\<open>pi_lua_dofile\<close> on file data. The message handler of the protected
  call is \<^verbatim>\<open>pi_lua_panic\<close>. The stack checks of the \<^verbatim>\<open>LUA_DEBUG\<close> macros are not modelled.
\<close>

definition pi_lua_dofile_data ::
  "platform \<Rightarrow> scripts \<Rightarrow> lua_State \<Rightarrow> FileInfo \<Rightarrow> string \<Rightarrow> unit outcome" where
  "pi_lua_dofile_data P S L info code =
     (let L1 = lua_pushcfunction L CF_pi_lua_panic in
      case luaL_loadbuffer S L1 code (GetPath info) of
        (loaded, L2) \<Rightarrow>
          if loaded \<noteq> LUA_OK then
            and_then (pi_lua_panic P S L2) (\<lambda>n L3. Ok () (lua_pop L3 1))
          else
            and_then (lua_pcall P S L2 0 0 (- 2)) (\<lambda>ret L3.
              if ret \<noteq> LUA_OK then
                (let L4 = (case lua_tostring P L3 (- 1) of
                             Some emsg \<Rightarrow> fprintf_stderr L3 (''lua error: '' @ c_str emsg)
                           | None \<Rightarrow> L3);
                     quoted = [CHR 0x27] @ c_str (GetAbsolutePath info) @ [CHR 0x27]
                 in if ret = LUA_ERRRUN then
                      Ok () (lua_pop (lua_pop (fprintf_stderr L4
                        (''Lua runtime error in pi_lua_dofile('' @ quoted @ '')'')) 1) 1)
                    else if ret = LUA_ERRMEM then
                      Ok () (lua_pop (lua_pop (fprintf_stderr L4
                        (''Memory allocation error in Lua pi_lua_dofile('' @ quoted @ '')'')) 1) 1)
                    else if ret = LUA_ERRERR then
                      Ok () (lua_pop (lua_pop (fprintf_stderr L4
                        (''Error running error handler in pi_lua_dofile('' @ quoted @ '')'')) 1) 1)
                    else Abort L4)
              else Ok () (lua_pop L3 1)))"

text \<open>
  Lines 223 to 246, \<^verbatim>\<open>pi_lua_dofile\<close> on a path. When the file cannot be read the line is
  printed and the null pointer is dereferenced all the same.
\<close>

definition pi_lua_dofile ::
  "platform \<Rightarrow> scripts \<Rightarrow> FileSource \<Rightarrow> lua_State \<Rightarrow> string \<Rightarrow> unit outcome" where
  "pi_lua_dofile P S fs L path =
     (let code = ReadFile fs path;
          L0 = (if code = None
                then fprintf_stderr L
                       (''could not read Lua file '' @ [CHR 0x27] @ c_str path @ [CHR 0x27])
                else L)
      in case code of
           None \<Rightarrow> Abort L0
         | Some (info, body) \<Rightarrow>
             (let dir = (if GetDir info = [] then ''.'' else GetDir info) in
              and_then (lua_setglobal P S (lua_pushstring L0 dir) ''CurrentDirectory'') (\<lambda>u L1.
              and_then (pi_lua_dofile_data P S L1 info body) (\<lambda>u L2.
              lua_setglobal P S (lua_pushnil L2) ''CurrentDirectory''))))"

text \<open>Lines 252 to 270, the loop over the entries of \<open>basepath\<close>.\<close>

fun dofile_recursive_loop ::
  "platform \<Rightarrow> scripts \<Rightarrow> lua_State \<Rightarrow> string \<Rightarrow> fs_entry list \<Rightarrow> unit outcome" where
  "dofile_recursive_loop P S L basepath [] = Ok () L"
| "dofile_recursive_loop P S L basepath (Entry info content children # files) =
     and_then
       (if IsDir info then dofile_recursive_loop P S L (GetPath info) children
        else if \<not> IsFile info then Abort L
        else if has_lua_suffix (GetPath info) then
          and_then (lua_setglobal P S (lua_pushstring L (if basepath = [] then ''.'' else basepath))
                      ''CurrentDirectory'') (\<lambda>u L1.
            case content of
              None \<Rightarrow> Abort L1
            | Some code \<Rightarrow> pi_lua_dofile_data P S L1 info code)
        else Ok () L)
       (\<lambda>u L'. dofile_recursive_loop P S L' basepath files)"

definition pi_lua_dofile_recursive ::
  "platform \<Rightarrow> scripts \<Rightarrow> FileSource \<Rightarrow> lua_State \<Rightarrow> string \<Rightarrow> unit outcome" where
  "pi_lua_dofile_recursive P S fs L basepath =
     dofile_recursive_loop P S L basepath (FileEnumerator fs basepath)"

text \<open>\<^verbatim>\<open>luaL_checkstring\<close> and \<^verbatim>\<open>luaL_optstring\<close> of the auxiliary library; what they
  return is a pointer to the bytes of the Lua string.\<close>

definition luaL_checkstring :: "platform \<Rightarrow> lua_State \<Rightarrow> int \<Rightarrow> string outcome" where
  "luaL_checkstring P L narg =
     (case lua_tostring P L narg of
        Some s \<Rightarrow> Ok s L
      | None \<Rightarrow> luaL_argerror L narg
                 (''string expected, got '' @ lua_typename (lua_type L narg)))"

definition luaL_optstring :: "platform \<Rightarrow> lua_State \<Rightarrow> int \<Rightarrow> string \<Rightarrow> string outcome" where
  "luaL_optstring P L narg d =
     (if lua_type L narg = LUA_TNONE \<or> lua_type L narg = LUA_TNIL then Ok d L
      else luaL_checkstring P L narg)"

text \<open>Lines 296 to 302: the saved directory is put back; the empty string stands for
  \<^verbatim>\<open>nil\<close>.\<close>

definition restore_directory :: "platform \<Rightarrow> scripts \<Rightarrow> string \<Rightarrow> lua_State \<Rightarrow> int outcome" where
  "restore_directory P S currentDir L =
     and_then (lua_setglobal P S
                 (if currentDir = [] then lua_pushnil L else lua_pushlstring L currentDir)
                 ''CurrentDirectory'') (\<lambda>u L'.
     Ok 0 L')"

text \<open>Lines 276 to 303. \<^verbatim>\<open>path\<close> and \<^verbatim>\<open>currentDir\<close> are \<^verbatim>\<open>std::string\<close>s built from the
  C strings \<^verbatim>\<open>luaL_checkstring\<close> and \<^verbatim>\<open>luaL_optstring\<close> return.\<close>

definition pi_load_lua :: "platform \<Rightarrow> scripts \<Rightarrow> FileSource \<Rightarrow> lua_State \<Rightarrow> int outcome" where
  "pi_load_lua P S fs L =
     and_then (luaL_checkstring P L 1) (\<lambda>s L0.
     let path = c_str s;
         info = Lookup fs path;
         quoted = [CHR 0x27] @ c_str path @ [CHR 0x27] in
     and_then (lua_getglobal P S L0 ''CurrentDirectory'') (\<lambda>u L1.
     and_then (luaL_optstring P L1 (- 1) []) (\<lambda>d L2.
     let currentDir = c_str d;
         L3 = lua_pop L2 1 in
     and_then
       (if IsDir info then pi_lua_dofile_recursive P S fs L3 path
        else if IsFile info \<and> has_lua_suffix path then pi_lua_dofile P S fs L3 path
        else if IsFile info then
          luaL_error L3 (''load_lua('' @ quoted @ '') called on a file without a .lua extension'')
        else if \<not> Exists info then
          luaL_error L3 (''load_lua('' @ quoted @ '') called on a path that doesn'' @ [CHR 0x27]
                         @ ''t exist'')
        else
          luaL_error L3 (''load_lua('' @ quoted @ '') called on a path that doesn'' @ [CHR 0x27]
                         @ ''t refer to a valid file''))
       (\<lambda>u L4. restore_directory P S currentDir L4))))"

section \<open>Observations and specification-level notions\<close>

text \<open>What a caller can tell of the way a call ended.\<close>

fun returns :: "'a outcome \<Rightarrow> bool" where
  "returns (Ok a L) = True"
| "returns (Raise st e L) = False"
| "returns (Fatal msg L) = False"
| "returns (Abort L) = False"



fun final_state :: "'a outcome \<Rightarrow> lua_State" where
  "final_state (Ok a L) = L"
| "final_state (Raise st e L) = L"
| "final_state (Fatal msg L) = L"
| "final_state (Abort L) = L"

text \<open>The values a C function hands back to the script that called it.\<close>

fun returned_values :: "int outcome \<Rightarrow> lua_value list option" where
  "returned_values (Ok n L) = Some (drop (length (stack L) - nat n) (stack L))"
| "returned_values (Raise st e L) = None"
| "returned_values (Fatal msg L) = None"
| "returned_values (Abort L) = None"

text \<open>The seeds \<^verbatim>\<open>l_hash_random\<close> accepts: \<^verbatim>\<open>nil\<close>, a string, a number that is not NaN.\<close>

fun accepted_seed :: "lua_value \<Rightarrow> bool" where
  "accepted_seed LNil = True"
| "accepted_seed (LString s) = True"
| "accepted_seed (LNumber n) = (n \<noteq> NaN)"
| "accepted_seed v = False"

text \<open>The two hash words \<^verbatim>\<open>l_hash_random\<close> works from, for an accepted seed.\<close>

fun seed_hash :: "platform \<Rightarrow> lua_value \<Rightarrow> u32 \<times> u32" where
  "seed_hash P (LString s) = lookup3_hashlittle2 P s 0 0"
| "seed_hash P (LNumber n) = lookup3_hashlittle2 P (double_bytes P n) 0 0"
| "seed_hash P v = (0xBF42B131, 0x2A40F7F2)"






text \<open>
  What \<^verbatim>\<open>pi_lua_table_ro\<close> leaves for a table \<open>t\<close>: a new metatable, whose \<^verbatim>\<open>__index\<close>
  is \<open>t\<close> itself, installed on \<open>t\<close>.
\<close>

definition ro_metatable :: "ref \<Rightarrow> lua_Table" where
  "ro_metatable t =
     \<lparr>entries = (\<lambda>k. LNil)(LString ''__index'' := LTable t,
                  LString ''__newindex'' := LCFunction CF_ro_table_error,
                  LString ''__metatable'' := LBoolean False),
      metatable = None\<rparr>"

definition ro_wrapped :: "lua_State \<Rightarrow> ref \<Rightarrow> lua_State" where
  "ro_wrapped L t =
     L\<lparr>tables := (tables L)(ntables L := ro_metatable t,
                            t := (tables L t)\<lparr>metatable := Some (ntables L)\<rparr>),
       ntables := Suc (ntables L)\<rparr>"

text \<open>
  The table of globals is plain when it carries no metatable, so that reading and writing
  a global is a raw access.
\<close>

definition plain :: "lua_State \<Rightarrow> bool" where
  "plain L = (metatable (tables L globals_ref) = None)"

text \<open>The directory \<^verbatim>\<open>pi_load_lua\<close> saves for a Directory Context that is absent or a
  string, and the value it puts back for a saved directory.\<close>

fun saved_directory :: "lua_value \<Rightarrow> string" where
  "saved_directory (LString s) = c_str s"
| "saved_directory v = []"

definition restored_context :: "string \<Rightarrow> lua_value" where
  "restored_context currentDir = (if currentDir = [] then LNil else LString currentDir)"

text \<open>
  The specification of the sandboxed environment. \<open>registered kvs s\<close> is the value an
  opener that registers the entries \<open>kvs\<close> one after the other leaves under the name \<open>s\<close>.
  In a state with \<open>n\<close> tables so far, the libraries after the base library are the tables
  \<open>n + 1\<close> to \<open>n + 6\<close>, in the order of \<^verbatim>\<open>STANDARD_LIBS\<close>: the table of globals holds them
  under their names, itself under \<^verbatim>\<open>_G\<close>, nothing under \<^verbatim>\<open>dofile\<close> and \<^verbatim>\<open>loadfile\<close>, and
  under any other name what the base library registered; the math table is the math library
  without \<^verbatim>\<open>random\<close> and \<^verbatim>\<open>randomseed\<close>, with \<^verbatim>\<open>deg2rad\<close> for \<^verbatim>\<open>rad\<close> and with
  \<^verbatim>\<open>hash_random\<close>.
\<close>

definition registered :: "(string \<times> lua_value) list \<Rightarrow> string \<Rightarrow> lua_value" where
  "registered kvs s = (case map_of (rev kvs) s of Some v \<Rightarrow> v | None \<Rightarrow> LNil)"

definition overlay ::
  "(string \<times> lua_value) list \<Rightarrow> (lua_value \<Rightarrow> lua_value) \<Rightarrow> lua_value \<Rightarrow> lua_value" where
  "overlay kvs old k =
     (case k of
        LString s \<Rightarrow> (case map_of (rev kvs) s of Some v \<Rightarrow> v | None \<Rightarrow> old k)
      | _ \<Rightarrow> old k)"

definition lib_entries :: "scripts \<Rightarrow> lua_opener \<Rightarrow> lua_value \<Rightarrow> lua_value" where
  "lib_entries S openf = overlay (library S openf) (\<lambda>k. LNil)"

definition sandbox_globals :: "scripts \<Rightarrow> nat \<Rightarrow> lua_value \<Rightarrow> lua_value" where
  "sandbox_globals S n k =
     (case k of
        LString s \<Rightarrow>
          if s = ''dofile'' \<or> s = ''loadfile'' then LNil
          else if s = ''debug'' then LTable (n + 6)
          else if s = ''math'' then LTable (n + 5)
          else if s = ''bit32'' then LTable (n + 4)
          else if s = ''string'' then LTable (n + 3)
          else if s = ''table'' then LTable (n + 2)
          else if s = ''coroutine'' then LTable (n + 1)
          else if s = ''_G'' then LTable globals_ref
          else registered (library S luaopen_base) s
      | _ \<Rightarrow> LNil)"

definition sandbox_math :: "scripts \<Rightarrow> lua_value \<Rightarrow> lua_value" where
  "sandbox_math S k =
     (case k of
        LString s \<Rightarrow>
          if s = ''hash_random'' then LCFunction CF_l_hash_random
          else if s = ''deg2rad'' then registered (library S luaopen_math) ''rad''
          else if s = ''random'' \<or> s = ''randomseed'' then LNil
          else registered (library S luaopen_math) s
      | _ \<Rightarrow> LNil)"

text \<open>The libraries can be required into a state when neither the table of globals nor the
  registry carries a metatable and the registry holds, under \<^verbatim>\<open>_LOADED\<close>, a table \<open>q\<close> of
  its own without metatable.\<close>

definition libs_ready :: "lua_State \<Rightarrow> ref \<Rightarrow> bool" where
  "libs_ready L q =
     (metatable (tables L globals_ref) = None \<and> metatable (tables L registry_ref) = None
      \<and> luaH_get L registry_ref (LString ''_LOADED'') = LTable q
      \<and> 2 \<le> q \<and> q < ntables L \<and> metatable (tables L q) = None)"

section \<open>Example inputs\<close>

text \<open>A platform whose hash returns its two seed words, and a state with a given stack,
  no tables filled in and nothing written or run yet.\<close>

definition demo_platform :: platform where
  "demo_platform =
     \<lparr>lookup3_hashlittle2 = (\<lambda>s a b. (a, b)), double_bytes = (\<lambda>n. []),
      luaO_str2d = (\<lambda>s. None), lua_number2str = (\<lambda>n. ''0'')\<rparr>"






definition demo_state :: "lua_value list \<Rightarrow> lua_State" where
  "demo_state xs =
     \<lparr>stack = xs, tables = (\<lambda>r. \<lparr>entries = (\<lambda>k. LNil), metatable = None\<rparr>),
      ntables = 2, where1 = [], stderr = [], executed = []\<rparr>"

text \<open>
  Scripts: the buffer \<^verbatim>\<open>(\<close> does not compile; function 0 raises the runtime error
  \<^verbatim>\<open>boom\<close>; function 1 hands its argument back; everything else returns nothing and
  touches nothing. The libraries are cut down to a few entries each.
\<close>

definition demo_library :: "lua_opener \<Rightarrow> (string \<times> lua_value) list" where
  "demo_library openf =
     (if openf = luaopen_base then
        [(''print'', LCFunction (CF_library ''print'')),
         (''dofile'', LCFunction (CF_library ''dofile'')),
         (''loadfile'', LCFunction (CF_library ''loadfile'')),
         (''_VERSION'', LString ''Lua 5.2'')]
      else if openf = luaopen_math then
        [(''rad'', LCFunction (CF_library ''math.rad'')),
         (''random'', LCFunction (CF_library ''math.random'')),
         (''randomseed'', LCFunction (CF_library ''math.randomseed'')),
         (''huge'', LNumber (Fin 0))]
      else if openf = luaopen_debug then
        [(''traceback'', LCFunction (CF_library ''debug.traceback''))]
      else [])"

definition demo_scripts :: scripts where
  "demo_scripts =
     \<lparr>compile_error = (\<lambda>code name.
        if code = ''('' then Some (LString (name @ '':1: unexpected symbol'')) else None),
      call_script = (\<lambda>f args L.
        if f = LFunction 0 then Raise LUA_ERRRUN (LString ''boom'') L
        else if f = LFunction 1 then Ok [hd (args @ [LNil])] L
        else Ok [] L),
      library = demo_library\<rparr>"

text \<open>Scripts that always compile, return nothing and touch nothing.\<close>

definition quiet_scripts :: scripts where
  "quiet_scripts =
     \<lparr>compile_error = (\<lambda>code name. None),
      call_script = (\<lambda>f args L. Ok [] L),
      library = demo_library\<rparr>"


text \<open>A state with one table, number 2, that holds \<open>x = 1\<close>.\<close>

definition demo_table_state :: "lua_value list \<Rightarrow> lua_State" where
  "demo_table_state xs =
     \<lparr>stack = xs,
      tables = (\<lambda>r. \<lparr>entries = (\<lambda>k. LNil), metatable = None\<rparr>)
        (2 := \<lparr>entries = (\<lambda>k. LNil)(LString ''x'' := LNumber (Fin 1)), metatable = None\<rparr>),
      ntables = 3, where1 = [], stderr = [], executed = []\<rparr>"

text \<open>
  A file service: the directory \<^verbatim>\<open>mods\<close> holds \<^verbatim>\<open>a.lua\<close>, \<^verbatim>\<open>b.lua\<close>, the subdirectory
  \<^verbatim>\<open>sub\<close> with \<^verbatim>\<open>c.lua\<close>, and \<^verbatim>\<open>notes.txt\<close>; the root directory holds a file whose whole
  name is \<^verbatim>\<open>.lua\<close>; nothing else exists.
\<close>

definition file_info :: "string \<Rightarrow> string \<Rightarrow> file_type \<Rightarrow> FileInfo" where
  "file_info p d t = \<lparr>GetPath = p, GetDir = d, GetAbsolutePath = ''/data/'' @ p, ftype = t\<rparr>"

definition demo_sub :: "fs_entry list" where
  "demo_sub = [Entry (file_info ''mods/sub/c.lua'' ''mods/sub'' FT_FILE) (Some ''c = 3'') []]"

definition demo_mods :: "fs_entry list" where
  "demo_mods =
     [Entry (file_info ''mods/a.lua'' ''mods'' FT_FILE) (Some ''a = 1'') [],
      Entry (file_info ''mods/b.lua'' ''mods'' FT_FILE) (Some ''b = 2'') [],
      Entry (file_info ''mods/sub'' ''mods'' FT_DIR) None demo_sub,
      Entry (file_info ''mods/notes.txt'' ''mods'' FT_FILE) (Some ''remember'') []]"

definition demo_root :: "fs_entry list" where
  "demo_root = [Entry (file_info ''.lua'' [] FT_FILE) (Some ''d = 4'') []]"

definition demo_fs :: FileSource where
  "demo_fs path =
     (if path = [] then Entry (file_info [] [] FT_DIR) None demo_root
      else if path = ''.lua'' then Entry (file_info ''.lua'' [] FT_FILE) (Some ''d = 4'') []
      else if path = ''mods'' then Entry (file_info ''mods'' [] FT_DIR) None demo_mods
      else if path = ''mods/a.lua'' then
        Entry (file_info ''mods/a.lua'' ''mods'' FT_FILE) (Some ''a = 1'') []
      else if path = ''mods/notes.txt'' then
        Entry (file_info ''mods/notes.txt'' ''mods'' FT_FILE) (Some ''remember'') []
      else if path = ''mods/sub'' then Entry (file_info ''mods/sub'' ''mods'' FT_DIR) None demo_sub
      else Entry (file_info path [] FT_NON_EXISTENT) None [])"

text \<open>The state \<open>demo_state xs\<close> with the global \<^verbatim>\<open>CurrentDirectory\<close> set.\<close>

definition demo_context_state :: "lua_value \<Rightarrow> lua_value list \<Rightarrow> lua_State" where
  "demo_context_state ctx xs =
     \<lparr>stack = xs,
      tables = (\<lambda>r. \<lparr>entries = (\<lambda>k. LNil), metatable = None\<rparr>)
        (1 := \<lparr>entries = (\<lambda>k. LNil)(LString ''CurrentDirectory'' := ctx), metatable = None\<rparr>),
      ntables = 2, where1 = [], stderr = [], executed = []\<rparr>"

section \<open>Properties of the double arithmetic\<close>

lemma bitlen_bounds:
  "0 < k \<Longrightarrow> 0 < bitlen k \<and> 2 ^ nat (bitlen k - 1) \<le> k \<and> k < 2 ^ nat (bitlen k)"
proof (induction k rule: bitlen.induct)
  case (1 k)
  show ?case
  proof (cases "k = 1")
    case True
    have "bitlen 1 = 1" by (simp add: bitlen.simps)
    with True show ?thesis by simp
  next
    case False
    with "1.prems" have h: "0 < k div 2" by simp
    from "1.IH" [OF _ h] "1.prems"
    have ih: "0 < bitlen (k div 2)" "2 ^ nat (bitlen (k div 2) - 1) \<le> k div 2"
      "k div 2 < 2 ^ nat (bitlen (k div 2))" by simp_all
    have b: "bitlen k = 1 + bitlen (k div 2)"
      using "1.prems" by (subst bitlen.simps) simp
    have e1: "nat (bitlen k - 1) = Suc (nat (bitlen (k div 2) - 1))"
      using ih(1) b by simp
    have e2: "nat (bitlen k) = Suc (nat (bitlen (k div 2)))"
      using ih(1) b by simp
    have "2 * 2 ^ nat (bitlen (k div 2) - 1) \<le> k" using ih(2) by linarith
    moreover have "k < 2 * 2 ^ nat (bitlen (k div 2))" using ih(3) by linarith
    ultimately show ?thesis using e1 e2 b ih(1) by simp
  qed
qed

lemma binexp_le:
  assumes "0 < q"
  shows "2 powi (binexp q) \<le> q"
proof (cases "1 \<le> q")
  case True
  then have f: "0 < \<lfloor>q\<rfloor>" by simp
  from bitlen_bounds [OF f] have b: "0 < bitlen \<lfloor>q\<rfloor>" "2 ^ nat (bitlen \<lfloor>q\<rfloor> - 1) \<le> \<lfloor>q\<rfloor>"
    by simp_all
  have "(2::rat) powi (bitlen \<lfloor>q\<rfloor> - 1) = 2 ^ nat (bitlen \<lfloor>q\<rfloor> - 1)"
    using b(1) by (simp add: power_int_def)
  also have "\<dots> = of_int (2 ^ nat (bitlen \<lfloor>q\<rfloor> - 1))" by simp
  also have "\<dots> \<le> of_int \<lfloor>q\<rfloor>" using b(2) by (simp only: of_int_le_iff)
  also have "\<dots> \<le> q" by simp
  finally show ?thesis using True by (simp add: binexp_def)
next
  case False
  define c where "c = \<lceil>1 / q\<rceil>"
  from False assms have "1 < 1 / q" by simp
  then have c2: "1 < c" unfolding c_def by (simp add: less_ceiling_iff)
  then have p: "0 < c - 1" by simp
  from bitlen_bounds [OF p] have b: "0 < bitlen (c - 1)" "c - 1 < 2 ^ nat (bitlen (c - 1))"
    by simp_all
  then have "c \<le> 2 ^ nat (bitlen (c - 1))" by simp
  then have "(of_int c :: rat) \<le> 2 ^ nat (bitlen (c - 1))" by simp
  moreover have "1 / q \<le> of_int c" unfolding c_def by simp
  ultimately have "1 / q \<le> 2 ^ nat (bitlen (c - 1))" by (rule order_trans [rotated])
  then have "1 \<le> 2 ^ nat (bitlen (c - 1)) * q"
    using assms by (simp add: field_simps)
  then have "1 / 2 ^ nat (bitlen (c - 1)) \<le> q"
    by (simp add: field_simps)
  moreover have "(2::rat) powi (- bitlen (c - 1)) = 1 / 2 ^ nat (bitlen (c - 1))"
    using b(1) by (simp add: power_int_def field_simps)
  ultimately show ?thesis using False by (simp add: binexp_def c_def)
qed

lemma round_half_even_bounds:
  "of_int (round_half_even q) \<le> q + 1 / 2" "q - 1 / 2 \<le> of_int (round_half_even q)"
proof -
  define f where "f = \<lfloor>q\<rfloor>"
  have f: "of_int f \<le> q" "q < of_int f + 1" unfolding f_def by linarith+
  have r: "round_half_even q =
      (if q - of_int f < 1 / 2 then f else if 1 / 2 < q - of_int f then f + 1
       else if even f then f else f + 1)"
    by (simp add: round_half_even_def Let_def f_def)
  show "of_int (round_half_even q) \<le> q + 1 / 2" unfolding r using f by auto
  show "q - 1 / 2 \<le> of_int (round_half_even q)" unfolding r using f by auto
qed

lemma round_half_even_nonneg: "0 \<le> q \<Longrightarrow> 0 \<le> round_half_even q"
  by (auto simp: round_half_even_def Let_def)

lemma round_double_nonneg: "0 \<le> q \<Longrightarrow> 0 \<le> round_double q"
  by (auto simp: round_double_def Let_def round_half_even_nonneg intro!: mult_nonneg_nonneg divide_nonneg_nonneg)

lemma round_double_upper:
  assumes "0 < q"
  shows "round_double q \<le> q * (1 + 1 / 2 ^ 53)"
proof -
  define u :: rat where "u = 2 powi (binexp q - 52)"
  have u: "0 < u" unfolding u_def by simp
  have "2 powi (binexp q) = u * 2 ^ 52"
    unfolding u_def by (simp add: power_int_diff)
  with binexp_le [OF assms] have "u * 2 ^ 52 \<le> q" by simp
  then have m: "2 ^ 52 \<le> q / u" using u by (simp add: field_simps)
  have "of_int (round_half_even (q / u)) \<le> q / u + 1 / 2" by (rule round_half_even_bounds)
  also have "\<dots> \<le> q / u + (q / u) / 2 ^ 53" using m by simp
  finally have "of_int (round_half_even (q / u)) * u \<le> (q / u + (q / u) / 2 ^ 53) * u"
    using u by (simp only: mult_le_cancel_right_pos)
  also have "\<dots> = q * (1 + 1 / 2 ^ 53)" using u by (simp add: field_simps)
  finally have fin: "of_int (round_half_even (q / u)) * u \<le> q * (1 + 1 / 2 ^ 53)" .
  have rd: "round_double q = of_int (round_half_even (q / u)) * u"
    using assms by (simp add: round_double_def Let_def u_def)
  show ?thesis unfolding rd by (rule fin)
qed

lemma double_mul_fraction:
  assumes x: "0 \<le> x" "x \<le> 1 - 1 / 2 ^ 53" and d: "1 \<le> d"
  shows "0 \<le> trunc (double_mul x (of_int d)) \<and> trunc (double_mul x (of_int d)) \<le> d - 1"
proof -
  let ?p = "double_mul x (of_int d)"
  have p0: "0 \<le> ?p" unfolding double_mul_def using x(1) d by (intro round_double_nonneg) simp
  have "?p < of_int d"
  proof (cases "x = 0")
    case True
    then show ?thesis using d by (simp add: double_mul_def round_double_def)
  next
    case False
    with x(1) d have pos: "0 < x * of_int d" by simp
    have "?p \<le> x * of_int d * (1 + 1 / 2 ^ 53)"
      unfolding double_mul_def by (rule round_double_upper [OF pos])
    also have "\<dots> \<le> (1 - 1 / 2 ^ 53) * of_int d * (1 + 1 / 2 ^ 53)"
      using x(2) d by (intro mult_right_mono) simp_all
    also have "\<dots> = of_int d * (1 - 1 / 2 ^ 106)" by (simp add: field_simps)
    also have "\<dots> < of_int d" using d by simp
    finally show ?thesis .
  qed
  then have "\<lfloor>?p\<rfloor> < d" by (simp add: floor_less_iff)
  with p0 show ?thesis by (simp add: trunc_def)
qed

lemma hash_fraction_bounds:
  "0 \<le> hash_fraction a b" "hash_fraction a b \<le> 1 - 1 / 2 ^ 53"
proof -
  have A: "uint (drop_bit 5 a) < 2 ^ 27"
    using uint_lt2p [of a] by (simp add: drop_bit_eq_div uint_div_distrib)
  have B: "uint (drop_bit 6 b) < 2 ^ 26"
    using uint_lt2p [of b] by (simp add: drop_bit_eq_div uint_div_distrib)
  have "uint (drop_bit 5 a) * 67108864 + uint (drop_bit 6 b) \<le> 9007199254740991"
    using A B by simp
  then have "(of_int (uint (drop_bit 5 a) * 67108864 + uint (drop_bit 6 b)) :: rat) \<le> of_int 9007199254740991"
    by (simp only: of_int_le_iff)
  then show "hash_fraction a b \<le> 1 - 1 / 2 ^ 53"
    by (simp add: hash_fraction_def field_simps)
  have "0 \<le> uint (drop_bit 5 a) * 67108864 + uint (drop_bit 6 b)" by simp
  then have "(0::rat) \<le> of_int (uint (drop_bit 5 a) * 67108864 + uint (drop_bit 6 b))"
    by (simp only: of_int_0_le_iff)
  then show "0 \<le> hash_fraction a b" by (simp add: hash_fraction_def)
qed

lemma sint_scale_to_range:
  assumes x: "0 \<le> x" "x \<le> 1 - 1 / 2 ^ 53"
    and mn: "sint m \<le> sint n" "sint n - sint m + 1 < 2 ^ 31"
  shows "sint (scale_to_range x m n) = sint m + trunc (double_mul x (of_int (sint n - sint m + 1)))"
    and "sint m \<le> sint (scale_to_range x m n)" and "sint (scale_to_range x m n) \<le> sint n"
proof -
  let ?d = "sint n - sint m + 1"
  define t where "t = trunc (double_mul x (of_int ?d))"
  have d1: "1 \<le> ?d" using mn(1) by simp
  have bm: "- (2 ^ 31) \<le> sint m" "sint m < 2 ^ 31" using sint_ge [of m] sint_lt [of m] by simp_all
  have bn: "- (2 ^ 31) \<le> sint n" "sint n < 2 ^ 31" using sint_ge [of n] sint_lt [of n] by simp_all
  have sd: "sint (n - m + 1) = ?d"
    using mn d1 by (simp add: sint_word_ariths signed_take_bit_int_eq_self)
  from double_mul_fraction [OF x d1] have t: "0 \<le> t" "t \<le> ?d - 1"
    unfolding t_def by simp_all
  have st: "sint (word_of_int t :: cint) = t"
    using t mn bm bn by (simp add: signed_of_int signed_take_bit_int_eq_self)
  have "sint (m + word_of_int t) = sint m + t"
    using t bm bn by (simp add: sint_word_ariths st signed_take_bit_int_eq_self)
  then have e: "sint (scale_to_range x m n) = sint m + t"
    by (simp add: scale_to_range_def double2int_def int2double_def sd t_def)
  then show "sint (scale_to_range x m n) = sint m + trunc (double_mul x (of_int ?d))"
    by (simp add: t_def)
  show "sint m \<le> sint (scale_to_range x m n)" using e t by linarith
  show "sint (scale_to_range x m n) \<le> sint n" using e t by linarith
qed

section \<open>The deterministic randomness source\<close>

lemma show_nat_1: "show_nat (Suc 0) = ''1''"
  by (simp add: show_nat.simps)

lemma ttype_not_none: "ttype v \<noteq> LUA_TNONE"
  by (cases v) simp_all

lemma nil_seed_fraction:
  "hash_fraction 0xBF42B131 0x2A40F7F2 = 6729381144232927 / 9007199254740992"
  by (simp add: hash_fraction_def drop_bit_eq_div)

lemma index2adr_args:
  "index2adr (L\<lparr>stack := [a]\<rparr>) 1 = Some a"
  "index2adr (L\<lparr>stack := [a, b]\<rparr>) 1 = Some a"
  "index2adr (L\<lparr>stack := [a, b]\<rparr>) 2 = Some b"
  "index2adr (L\<lparr>stack := [a, b, c]\<rparr>) 1 = Some a"
  "index2adr (L\<lparr>stack := [a, b, c]\<rparr>) 2 = Some b"
  "index2adr (L\<lparr>stack := [a, b, c]\<rparr>) 3 = Some c"
  by (simp_all add: index2adr_def lua_gettop_def)

lemma hash_of_seed_accepted:
  "accepted_seed seed \<Longrightarrow> index2adr L 1 = Some seed \<Longrightarrow> hash_of_seed P L = Inr (seed_hash P seed)"
  by (cases seed) (auto simp: hash_of_seed_def)

lemma lua_type_Some: "index2adr L i = Some v \<Longrightarrow> lua_type L i \<noteq> LUA_TNONE"
  by (cases v) (simp_all add: lua_type_def)

lemma ucast_word_of_int_64_32: "(ucast (word_of_int k :: lua_Integer) :: cint) = word_of_int k"
  by transfer simp

lemma sint_scast_32_64: "sint (scast (w :: cint) :: lua_Integer) = sint w"
  by (simp add: sint_up_scast is_up)

lemma tointeger_int:
  assumes "index2adr L i = Some (LNumber (Fin (of_int k)))" "- (2 ^ 31) \<le> k" "k < 2 ^ 31"
  shows "(ucast (lua_tointeger P L i) :: cint) = word_of_int k"
    and "sint (ucast (lua_tointeger P L i) :: cint) = k"
proof -
  have t: "trunc (of_int k) = k" by (simp add: trunc_def)
  have "lua_tointeger P L i = word_of_int k"
    using assms by (simp add: lua_tointeger_def lua_number2integer_def t)
  then show c: "(ucast (lua_tointeger P L i) :: cint) = word_of_int k"
    by (simp add: ucast_word_of_int_64_32)
  show "sint (ucast (lua_tointeger P L i) :: cint) = k"
    unfolding c using assms(2,3) by (simp add: signed_of_int signed_take_bit_int_eq_self)
qed

text \<open>
  Within the range of a 32-bit \<^verbatim>\<open>int\<close>, and when \<open>hi - lo + 1\<close> does not overflow it, the
  three-argument call returns \<open>lo + trunc (x * (hi - lo + 1))\<close>, the product taken in double
  arithmetic, and the result lies between \<open>lo\<close> and \<open>hi\<close>.
\<close>

lemma hash_random_three_arguments_in_range:
  fixes P :: platform
  assumes seed: "accepted_seed seed"
    and lo: "- (2 ^ 31) \<le> lo" "lo \<le> hi" and hi: "hi < 2 ^ 31" and d: "hi - lo + 1 < 2 ^ 31"
    and st: "stack L = [seed, LNumber (Fin (of_int lo)), LNumber (Fin (of_int hi))]"
  defines "x \<equiv> hash_fraction (fst (seed_hash P seed)) (snd (seed_hash P seed))"
  defines "v \<equiv> lo + trunc (double_mul x (of_int (hi - lo + 1)))"
  shows "l_hash_random P L = Ok 1 (L\<lparr>stack := stack L @ [LNumber (Fin (of_int v))]\<rparr>)"
    and "lo \<le> v" and "v \<le> hi" and "0 \<le> x" and "x < 1"
proof -
  have i: "index2adr L 1 = Some seed" "index2adr L 2 = Some (LNumber (Fin (of_int lo)))"
    "index2adr L 3 = Some (LNumber (Fin (of_int hi)))"
    using st by (simp_all add: index2adr_def lua_gettop_def)
  define m :: cint where "m = ucast (lua_tointeger P L 2)"
  define n :: cint where "n = ucast (lua_tointeger P L 3)"
  have sm: "sint m = lo" unfolding m_def using lo hi by (intro tointeger_int [OF i(2)]) simp_all
  have sn: "sint n = hi" unfolding n_def using lo hi by (intro tointeger_int [OF i(3)]) simp_all
  have xb: "0 \<le> x" "x \<le> 1 - 1 / 2 ^ 53" unfolding x_def by (rule hash_fraction_bounds)+
  then show "0 \<le> x" "x < 1" by simp_all
  have r: "sint (scale_to_range x m n) = v"
    unfolding v_def using sint_scale_to_range(1) [OF xb, of m n] lo d by (simp add: sm sn)
  show "lo \<le> v" using sint_scale_to_range(2) [OF xb, of m n] lo d by (simp add: sm sn r)
  show "v \<le> hi" using sint_scale_to_range(3) [OF xb, of m n] lo d by (simp add: sm sn r)
  have h: "hash_of_seed P L = Inr (seed_hash P seed)"
    by (rule hash_of_seed_accepted [OF seed i(1)])
  have "l_hash_random P L = Ok 1 (lua_pushinteger L (scast (scale_to_range x m n)))"
    using lua_type_Some [OF i(1)] st
    by (simp add: l_hash_random_def h lua_gettop_def x_def m_def n_def split: prod.split)
  then show "l_hash_random P L = Ok 1 (L\<lparr>stack := stack L @ [LNumber (Fin (of_int v))]\<rparr>)"
    by (simp add: lua_pushinteger_def push_def sint_scast_32_64 r)
qed

text \<open>Whatever the seed and the second argument, the two-argument call computes what the
  three-argument call with \<open>lo = 1\<close> computes.\<close>

lemma hash_random_two_as_three:
  "returned_values (l_hash_random P (L\<lparr>stack := [seed, a]\<rparr>)) =
   returned_values (l_hash_random P (L\<lparr>stack := [seed, LNumber (Fin 1), a]\<rparr>))"
proof -
  have one: "(ucast (lua_number2integer (Fin 1)) :: cint) = 1"
    by (simp add: lua_number2integer_def trunc_def)
  have h: "hash_of_seed P (L\<lparr>stack := [seed, a]\<rparr>) = Inl (Abort (L\<lparr>stack := [seed, a]\<rparr>)) \<and>
           hash_of_seed P (L\<lparr>stack := [seed, LNumber (Fin 1), a]\<rparr>)
             = Inl (Abort (L\<lparr>stack := [seed, LNumber (Fin 1), a]\<rparr>))
         \<or> hash_of_seed P (L\<lparr>stack := [seed, a]\<rparr>)
             = Inl (luaL_error (L\<lparr>stack := [seed, a]\<rparr>) ''expected a string or a number for argument 1'') \<and>
           hash_of_seed P (L\<lparr>stack := [seed, LNumber (Fin 1), a]\<rparr>)
             = Inl (luaL_error (L\<lparr>stack := [seed, LNumber (Fin 1), a]\<rparr>) ''expected a string or a number for argument 1'')
         \<or> (\<exists>p. hash_of_seed P (L\<lparr>stack := [seed, a]\<rparr>) = Inr p \<and>
                 hash_of_seed P (L\<lparr>stack := [seed, LNumber (Fin 1), a]\<rparr>) = Inr p)"
    by (cases seed) (auto simp: hash_of_seed_def index2adr_args)
  have t: "lua_tointeger P (L\<lparr>stack := [seed, a]\<rparr>) 2
         = lua_tointeger P (L\<lparr>stack := [seed, LNumber (Fin 1), a]\<rparr>) 3"
    "lua_tointeger P (L\<lparr>stack := [seed, LNumber (Fin 1), a]\<rparr>) 2 = lua_number2integer (Fin 1)"
    by (simp_all add: lua_tointeger_def index2adr_args)
  from h show ?thesis
    by (auto simp: l_hash_random_def lua_gettop_def lua_type_def index2adr_args t one luaL_error_def
        luaL_argerror_def ttype_not_none lua_pushinteger_def push_def split: prod.split)
qed

text \<open>
  C9, as stated: calling \<^verbatim>\<open>hash_random\<close> with zero arguments succeeds and returns a fixed
  value. On the code the call with an empty argument list is rejected by
  \<^verbatim>\<open>luaL_checkany(L, 1)\<close>: it raises a bad-argument error and returns nothing.
\<close>

theorem hash_random_no_argument_raises:
  "l_hash_random demo_platform (demo_state []) =
     Raise LUA_ERRRUN (LString (''bad argument #1 to '' @ [CHR 0x27] @ ''?'' @ [CHR 0x27]
                         @ '' (value expected)'')) (demo_state [])"
  by (simp add: l_hash_random_def lua_gettop_def lua_type_def index2adr_def luaL_argerror_def
      luaL_error_def demo_state_def show_int_def show_nat_1 LUA_REGISTRYINDEX_def)

text \<open>
  C9, amended: calling \<^verbatim>\<open>hash_random\<close> with the single argument \<^verbatim>\<open>nil\<close> succeeds on
  every platform and in every state, and always returns the same fraction,
  \<open>6729381144232927 / 2\<^sup>5\<^sup>3\<close>. The fraction is built from the two fixed 32-bit constants
  \<^verbatim>\<open>0xBF42B131\<close> and \<^verbatim>\<open>0x2A40F7F2\<close>, which take the place of the two hash words; they
  are not passed through the mixing hash.
\<close>

theorem hash_random_nil_seed_fixed:
  "l_hash_random P (L\<lparr>stack := [LNil]\<rparr>) =
     Ok 1 (L\<lparr>stack := [LNil, LNumber (Fin (hash_fraction 0xBF42B131 0x2A40F7F2))]\<rparr>)
   \<and> hash_fraction 0xBF42B131 0x2A40F7F2 = 6729381144232927 / 9007199254740992"
  by (simp add: l_hash_random_def lua_gettop_def lua_type_def index2adr_args hash_of_seed_def
      lua_pushnumber_def push_def nil_seed_fraction)

text \<open>
  C10, as stated: for every integer \<open>n\<close> the two-argument call returns an integer in
  \<open>[1, n]\<close>. For \<open>n = 0\<close> that range is empty; the code returns 1.
\<close>

theorem hash_random_two_arguments_zero:
  "l_hash_random demo_platform (demo_state [LNil, LNumber (Fin 0)]) =
     Ok 1 (demo_state [LNil, LNumber (Fin 0), LNumber (Fin 1)])
   \<and> \<not> ((1::rat) \<le> 1 \<and> (1::rat) \<le> 0)"
  by (simp add: l_hash_random_def lua_gettop_def lua_type_def index2adr_def hash_of_seed_def
      lua_tointeger_def lua_number2integer_def trunc_def scale_to_range_def int2double_def
      double_mul_def round_double_def double2int_def lua_pushinteger_def push_def demo_state_def
      LUA_REGISTRYINDEX_def)

text \<open>
  C10, amended: for every accepted seed (\<^verbatim>\<open>nil\<close>, a string, a number that is not NaN) and
  every integer \<open>n\<close> with \<open>1 \<le> n \<le> 2147483647\<close>, the two-argument call
  \<^verbatim>\<open>hash_random(seed, n)\<close> is accepted and returns an integer \<open>v\<close> with \<open>1 \<le> v \<le> n\<close>, the
  integer \<^verbatim>\<open>hash_random(seed, 1, n)\<close> returns; and whatever its two arguments are, the
  two-argument call hands back what the three-argument call with \<open>lo = 1\<close> hands back.
\<close>

theorem hash_random_two_arguments:
  assumes "accepted_seed seed" "1 \<le> n" "n \<le> 2147483647"
  shows "\<exists>v. 1 \<le> v \<and> v \<le> n
      \<and> l_hash_random P (L\<lparr>stack := [seed, LNumber (Fin (of_int n))]\<rparr>)
          = Ok 1 (L\<lparr>stack := [seed, LNumber (Fin (of_int n)), LNumber (Fin (of_int v))]\<rparr>)
      \<and> l_hash_random P (L\<lparr>stack := [seed, LNumber (Fin 1), LNumber (Fin (of_int n))]\<rparr>)
          = Ok 1 (L\<lparr>stack := [seed, LNumber (Fin 1), LNumber (Fin (of_int n)),
                               LNumber (Fin (of_int v))]\<rparr>)
      \<and> returned_values (l_hash_random P (L\<lparr>stack := [seed', a]\<rparr>))
          = returned_values (l_hash_random P (L\<lparr>stack := [seed', LNumber (Fin 1), a]\<rparr>))"
proof -
  let ?L3 = "L\<lparr>stack := [seed, LNumber (Fin 1), LNumber (Fin (of_int n))]\<rparr>"
  let ?L2 = "L\<lparr>stack := [seed, LNumber (Fin (of_int n))]\<rparr>"
  define v where "v = 1 + trunc (double_mul (hash_fraction (fst (seed_hash P seed))
      (snd (seed_hash P seed))) (of_int (n - 1 + 1)))"
  have st: "stack ?L3 = [seed, LNumber (Fin (of_int 1)), LNumber (Fin (of_int n))]" by simp
  have three: "l_hash_random P ?L3 = Ok 1 (?L3\<lparr>stack := stack ?L3 @ [LNumber (Fin (of_int v))]\<rparr>)"
    and v: "1 \<le> v" "v \<le> n"
    unfolding v_def
    using hash_random_three_arguments_in_range [OF assms(1) _ assms(2) _ _ st, of P] assms(2,3)
    by simp_all
  have "returned_values (l_hash_random P ?L2) = returned_values (l_hash_random P ?L3)"
    by (rule hash_random_two_as_three)
  then have rv: "returned_values (l_hash_random P ?L2) = Some [LNumber (Fin (of_int v))]"
    by (simp add: three)
  have i: "index2adr ?L2 1 = Some seed" by (simp add: index2adr_args)
  have "\<exists>w. l_hash_random P ?L2 = Ok 1 (lua_pushinteger ?L2 w)"
    using lua_type_Some [OF i]
    by (auto simp: l_hash_random_def hash_of_seed_accepted [OF assms(1) i] lua_gettop_def
        split: prod.split)
  then obtain w where w: "l_hash_random P ?L2 = Ok 1 (lua_pushinteger ?L2 w)" by blast
  with rv have "LNumber (Fin (of_int (sint w))) = LNumber (Fin (of_int v))"
    by (simp add: lua_pushinteger_def push_def)
  with w have two: "l_hash_random P ?L2
      = Ok 1 (L\<lparr>stack := [seed, LNumber (Fin (of_int n)), LNumber (Fin (of_int v))]\<rparr>)"
    by (simp add: lua_pushinteger_def push_def)
  show ?thesis
    using v two three hash_random_two_as_three [where P = P and L = L and seed = seed' and a = a] by (intro exI [of _ v]) simp
qed

theorem hash_random_two_arguments_witness:
  "accepted_seed (LString ''seed'') \<and> (1::int) \<le> 6 \<and> (6::int) \<le> 2147483647
   \<and> (\<exists>v. 1 \<le> v \<and> v \<le> 6
      \<and> l_hash_random demo_platform ((demo_state [])\<lparr>stack := [LString ''seed'', LNumber (Fin (of_int 6))]\<rparr>)
          = Ok 1 ((demo_state [])\<lparr>stack := [LString ''seed'', LNumber (Fin (of_int 6)),
                                           LNumber (Fin (of_int v))]\<rparr>))"
proof -
  have h: "accepted_seed (LString ''seed'')" "(1::int) \<le> 6" "(6::int) \<le> 2147483647" by simp_all
  from hash_random_two_arguments [OF h, where P = demo_platform and L = "demo_state []"]
  show ?thesis using h by blast
qed

text \<open>
  C8, at the failing input: \<^verbatim>\<open>hash_random(nil, 0, 2147483647)\<close>. The 32-bit
  \<open>n - m + 1\<close> wraps around to \<open>-2147483648\<close>, and the call returns \<open>-1604409490\<close>, which
  is not in \<open>[0, 2147483647]\<close>.
\<close>

lemma scale_to_range_overflow:
  "scale_to_range (hash_fraction 0xBF42B131 0x2A40F7F2) 0 2147483647 = word_of_int (- 1604409490)"
  by code_simp

theorem hash_random_range_overflow:
  "l_hash_random P (L\<lparr>stack := [LNil, LNumber (Fin 0), LNumber (Fin 2147483647)]\<rparr>) =
     Ok 1 (L\<lparr>stack := [LNil, LNumber (Fin 0), LNumber (Fin 2147483647),
                        LNumber (Fin (- 1604409490))]\<rparr>)"
proof -
  have m: "(ucast (lua_number2integer (Fin 0)) :: cint) = 0"
    by (simp add: lua_number2integer_def trunc_def)
  have n: "(ucast (lua_number2integer (Fin 2147483647)) :: cint) = 2147483647"
    by (simp add: lua_number2integer_def trunc_def)
  have s: "sint (scast (word_of_int (- 1604409490) :: cint) :: lua_Integer) = - 1604409490"
    by (simp add: sint_scast_32_64 signed_of_int signed_take_bit_int_eq_self)
  show ?thesis
    by (simp add: l_hash_random_def lua_gettop_def lua_type_def index2adr_args hash_of_seed_def
        lua_tointeger_def m n scale_to_range_overflow lua_pushinteger_def push_def s)
qed






section \<open>Tables without metatable\<close>

lemma MAXTAGLOOP_Suc: "MAXTAGLOOP = Suc 99" by (simp add: MAXTAGLOOP_def)

lemma gettable_loop_plain:
  "metatable (tables L r) = None \<Longrightarrow> gettable_loop P S (Suc n) L (LTable r) k = Ok (luaH_get L r k) L"
  by (simp add: fasttm_def)

lemma settable_loop_plain:
  "metatable (tables L r) = None \<Longrightarrow> settable_loop P S (Suc n) L (LTable r) k v = table_set L r k v"
  by (simp add: fasttm_def)

lemma luaV_gettable_plain:
  "metatable (tables L r) = None \<Longrightarrow> luaV_gettable P S L (LTable r) k = Ok (luaH_get L r k) L"
  unfolding luaV_gettable_def MAXTAGLOOP_Suc by (rule gettable_loop_plain)

lemma luaV_settable_plain:
  "metatable (tables L r) = None \<Longrightarrow> luaV_settable P S L (LTable r) k v = table_set L r k v"
  unfolding luaV_settable_def MAXTAGLOOP_Suc by (rule settable_loop_plain)

section \<open>The protected call of the recoverable tier\<close>

lemma c_str_idem [simp]: "c_str (c_str s) = c_str s"
  by (simp add: c_str_def)









section \<open>Loading a single script\<close>

lemma pi_lua_dofile_unreadable:
  "ReadFile fs path = None \<Longrightarrow>
   pi_lua_dofile P S fs L path =
     Abort (fprintf_stderr L (''could not read Lua file '' @ [CHR 0x27] @ c_str path @ [CHR 0x27]))"
  by (simp add: pi_lua_dofile_def)

text \<open>
  C7, at the failing input: the file service has no file \<^verbatim>\<open>mods/missing.lua\<close>. The code
  prints its line to the diagnostic stream and then dereferences the null pointer the read
  returned; the process dies there instead of returning a recoverable result.
\<close>

theorem pi_lua_dofile_missing_file_crashes:
  "pi_lua_dofile demo_platform demo_scripts demo_fs (demo_state []) ''mods/missing.lua'' =
     Abort ((demo_state [])\<lparr>stderr :=
       [''could not read Lua file '' @ [CHR 0x27] @ ''mods/missing.lua'' @ [CHR 0x27]]\<rparr>)"
  by (simp add: pi_lua_dofile_def ReadFile_def demo_fs_def file_info_def IsFile_def
      fprintf_stderr_def demo_state_def c_str_def)

section \<open>The read-only table wrapper\<close>

lemma index2adr_from_top:
  "stack L = xs @ [a] \<Longrightarrow> index2adr L (- 1) = Some a"
  "stack L = xs @ [a, b] \<Longrightarrow> index2adr L (- 2) = Some a"
  "stack L = xs @ [a, b, c] \<Longrightarrow> index2adr L (- 3) = Some a"
  by (simp_all add: index2adr_def lua_gettop_def LUA_REGISTRYINDEX_def nth_append)

lemma index2value_from_top:
  "stack L = xs @ [a] \<Longrightarrow> index2value L (- 1) = a"
  "stack L = xs @ [a, b] \<Longrightarrow> index2value L (- 2) = a"
  "stack L = xs @ [a, b, c] \<Longrightarrow> index2value L (- 3) = a"
  by (simp_all add: index2value_def index2adr_from_top)

lemma lua_rawset_third:
  assumes "stack L = xs @ [LTable r, LString k, v]"
  shows "lua_rawset L (- 3) =
    Ok () (L\<lparr>tables := (tables L)(r := (tables L r)
                 \<lparr>entries := (entries (tables L r))(LString k := v)\<rparr>),
             stack := xs @ [LTable r]\<rparr>)"
  using assms
  by (simp add: lua_rawset_def index2adr_from_top(3) [OF assms] index2value_def
      index2adr_from_top(1) [where L = L and xs = "xs @ [LTable r, LString k]" and a = v]
      index2adr_from_top(2) [where L = L and xs = "xs @ [LTable r]" and a = "LString k" and b = v]
      table_set_def luaH_set_def and_then_def lua_pop_def)

lemma pi_lua_table_ro_effect:
  assumes "stack L = st @ [LTable t]" "t < ntables L"
  shows "pi_lua_table_ro L = Ok () (ro_wrapped L t)"
proof -
  let ?m = "ntables L"
  let ?T0 = "(tables L)(?m := \<lparr>entries = (\<lambda>k. LNil), metatable = None\<rparr>)"
  have ne: "t \<noteq> ntables L" using assms(2) by simp
  define A where "A = lua_pushvalue (lua_pushstring (lua_newtable L) ''__index'') (- 3)"
  have A: "A = L\<lparr>tables := ?T0, ntables := Suc ?m,
                  stack := (st @ [LTable t]) @ [LTable ?m, LString ''__index'', LTable t]\<rparr>"
    using assms by (simp add: A_def lua_pushvalue_def lua_pushstring_def c_str_def lua_newtable_def push_def
        index2value_def index2adr_def lua_gettop_def LUA_REGISTRYINDEX_def nth_append)
  define A' where "A' = L\<lparr>tables := ?T0(?m := \<lparr>entries = (\<lambda>k. LNil)(LString ''__index'' := LTable t),
                          metatable = None\<rparr>), ntables := Suc ?m, stack := (st @ [LTable t]) @ [LTable ?m]\<rparr>"
  have rA: "lua_rawset A (- 3) = Ok () A'"
    by (subst lua_rawset_third [where xs = "st @ [LTable t]" and r = ?m and k = "''__index''" and v = "LTable t"])
       (simp_all add: A A'_def)
  define B where "B = lua_pushcfunction (lua_pushstring A' ''__newindex'') CF_ro_table_error"
  define B' where "B' = L\<lparr>tables := ?T0(?m := \<lparr>entries = (\<lambda>k. LNil)(LString ''__index'' := LTable t,
                             LString ''__newindex'' := LCFunction CF_ro_table_error),
                          metatable = None\<rparr>), ntables := Suc ?m, stack := (st @ [LTable t]) @ [LTable ?m]\<rparr>"
  have rB: "lua_rawset B (- 3) = Ok () B'"
    by (subst lua_rawset_third [where xs = "st @ [LTable t]" and r = ?m and k = "''__newindex''"
          and v = "LCFunction CF_ro_table_error"])
       (simp_all add: B_def A'_def B'_def lua_pushcfunction_def lua_pushstring_def c_str_def push_def)
  define C where "C = lua_pushboolean (lua_pushstring B' ''__metatable'') False"
  define C' where "C' = L\<lparr>tables := ?T0(?m := ro_metatable t), ntables := Suc ?m,
                           stack := (st @ [LTable t]) @ [LTable ?m]\<rparr>"
  have rC: "lua_rawset C (- 3) = Ok () C'"
    by (subst lua_rawset_third [where xs = "st @ [LTable t]" and r = ?m and k = "''__metatable''"
          and v = "LBoolean False"])
       (simp_all add: C_def B'_def C'_def lua_pushboolean_def lua_pushstring_def c_str_def push_def ro_metatable_def)
  have i2: "index2adr C' (- 2) = Some (LTable t)"
    by (rule index2adr_from_top(2) [where xs = st]) (simp add: C'_def)
  have i1: "index2value C' (- 1) = LTable ?m"
    by (rule index2value_from_top(1) [where xs = "st @ [LTable t]"]) (simp add: C'_def)
  have sm: "lua_setmetatable C' (- 2) = ro_wrapped L t"
    using ne assms(1) by (simp add: lua_setmetatable_def i2 i1 lua_pop_def) (simp add: C'_def ro_wrapped_def fun_upd_twist)
  show ?thesis
    unfolding pi_lua_table_ro_def A_def [symmetric]
    by (simp add: rA and_then_def B_def [symmetric] rB C_def [symmetric] rC sm)
qed

lemma gettable_loop_self_index:
  assumes "luaH_get L r k = LNil" "fasttm L r ''__index'' = LTable r"
  shows "gettable_loop P S n L (LTable r) k = luaG_runerror L ''loop in gettable''"
  using assms by (induction n) simp_all

lemma ro_wrapped_get: "t < ntables L \<Longrightarrow> luaH_get (ro_wrapped L t) t k = luaH_get L t k"
  by (simp add: ro_wrapped_def luaH_get_def)

lemma ro_wrapped_fasttm:
  "t < ntables L \<Longrightarrow> fasttm (ro_wrapped L t) t ev = entries (ro_metatable t) (LString ev)"
  by (simp add: ro_wrapped_def fasttm_def luaH_get_def)

lemma ro_wrapped_write_absent_loop:
  assumes "t < ntables L" "luaH_get L t k = LNil"
  shows "settable_loop P S (Suc n) (ro_wrapped L t) (LTable t) k v =
     Raise LUA_ERRRUN (LString (where1 L @ ''Attempt to modify read-only table'')) (ro_wrapped L t)"
proof -
  have w: "where1 (ro_wrapped L t) = where1 L" by (simp add: ro_wrapped_def)
  show ?thesis
    using assms
    by (simp add: ro_wrapped_get ro_wrapped_fasttm ro_metatable_def call_leaf_def
        cfunction_call_def ro_table_error_def luaL_error_def and_then_def w)
qed

lemma ro_wrapped_write_absent:
  assumes "t < ntables L" "luaH_get L t k = LNil"
  shows "luaV_settable P S (ro_wrapped L t) (LTable t) k v =
     Raise LUA_ERRRUN (LString (where1 L @ ''Attempt to modify read-only table'')) (ro_wrapped L t)"
  unfolding luaV_settable_def MAXTAGLOOP_Suc by (rule ro_wrapped_write_absent_loop [OF assms])

lemma ro_wrapped_read_present_loop:
  assumes "t < ntables L" "luaH_get L t k \<noteq> LNil"
  shows "gettable_loop P S (Suc n) (ro_wrapped L t) (LTable t) k = Ok (luaH_get L t k) (ro_wrapped L t)"
  using assms by (simp add: ro_wrapped_get)

lemma ro_wrapped_read_present:
  assumes "t < ntables L" "luaH_get L t k \<noteq> LNil"
  shows "luaV_gettable P S (ro_wrapped L t) (LTable t) k = Ok (luaH_get L t k) (ro_wrapped L t)"
  unfolding luaV_gettable_def MAXTAGLOOP_Suc by (rule ro_wrapped_read_present_loop [OF assms])

lemma ro_wrapped_read_absent:
  assumes "t < ntables L" "luaH_get L t k = LNil"
  shows "luaV_gettable P S (ro_wrapped L t) (LTable t) k =
     Raise LUA_ERRRUN (LString ''loop in gettable'') (ro_wrapped L t)"
  unfolding luaV_gettable_def
  using assms
  by (simp add: gettable_loop_self_index ro_wrapped_get ro_wrapped_fasttm ro_metatable_def
      luaG_runerror_def)

lemma ro_wrapped_write_present_loop:
  assumes "t < ntables L" "luaH_get L t k \<noteq> LNil"
  shows "settable_loop P S (Suc n) (ro_wrapped L t) (LTable t) k v = table_set (ro_wrapped L t) t k v"
  using assms by (simp add: ro_wrapped_get)

lemma ro_wrapped_write_present:
  assumes "t < ntables L" "luaH_get L t k \<noteq> LNil"
  shows "luaV_settable P S (ro_wrapped L t) (LTable t) k v = table_set (ro_wrapped L t) t k v"
  unfolding luaV_settable_def MAXTAGLOOP_Suc by (rule ro_wrapped_write_present_loop [OF assms])

lemma demo_ro: "pi_lua_table_ro (demo_table_state [LTable 2]) = Ok () (ro_wrapped (demo_table_state [LTable 2]) 2)"
  by (rule pi_lua_table_ro_effect [where st = "[]"]) (simp_all add: demo_table_state_def)

text \<open>
  C3, at the failing input: the table \<open>{x = 1}\<close> made read-only by
  \<^verbatim>\<open>pi_lua_table_ro\<close>. The function installs the new metatable on the table itself, with
  the table as its own \<^verbatim>\<open>__index\<close>, so the table still holds its keys and \<^verbatim>\<open>__newindex\<close>
  is not consulted for them: the write \<open>x = 2\<close> returns and the table holds 2 afterwards.
  Only the write of a new key \<open>y\<close> raises \<^verbatim>\<open>Attempt to modify read-only table\<close> (a
  message that does not name \<open>y\<close>); and reading the absent key \<open>y\<close>, which gave
  \<^verbatim>\<open>nil\<close> before the call, raises \<^verbatim>\<open>loop in gettable\<close> after it.
\<close>

theorem read_only_table_existing_key_is_writable:
  "returns (and_then (pi_lua_table_ro (demo_table_state [LTable 2]))
      (\<lambda>u L. luaV_settable demo_platform demo_scripts L (LTable 2) (LString ''x'') (LNumber (Fin 2))))
   \<and> luaH_get (final_state (and_then (pi_lua_table_ro (demo_table_state [LTable 2]))
      (\<lambda>u L. luaV_settable demo_platform demo_scripts L (LTable 2) (LString ''x'') (LNumber (Fin 2)))))
        2 (LString ''x'') = LNumber (Fin 2)
   \<and> luaH_get (demo_table_state [LTable 2]) 2 (LString ''x'') = LNumber (Fin 1)
   \<and> and_then (pi_lua_table_ro (demo_table_state [LTable 2]))
      (\<lambda>u L. luaV_settable demo_platform demo_scripts L (LTable 2) (LString ''y'') (LNumber (Fin 2)))
     = Raise LUA_ERRRUN (LString ''Attempt to modify read-only table'')
         (ro_wrapped (demo_table_state [LTable 2]) 2)
   \<and> luaV_gettable demo_platform demo_scripts (demo_table_state [LTable 2]) (LTable 2) (LString ''y'')
     = Ok LNil (demo_table_state [LTable 2])
   \<and> and_then (pi_lua_table_ro (demo_table_state [LTable 2]))
      (\<lambda>u L. luaV_gettable demo_platform demo_scripts L (LTable 2) (LString ''y''))
     = Raise LUA_ERRRUN (LString ''loop in gettable'') (ro_wrapped (demo_table_state [LTable 2]) 2)"
proof -
  have n: "(2::nat) < ntables (demo_table_state [LTable 2])" by (simp add: demo_table_state_def)
  have x: "luaH_get (demo_table_state [LTable 2]) 2 (LString ''x'') = LNumber (Fin 1)"
    by (simp add: demo_table_state_def luaH_get_def)
  have y: "luaH_get (demo_table_state [LTable 2]) 2 (LString ''y'') = LNil"
    by (simp add: demo_table_state_def luaH_get_def)
  have w: "where1 (demo_table_state [LTable 2]) = []" by (simp add: demo_table_state_def)
  have p: "metatable (tables (demo_table_state [LTable 2]) 2) = None" by (simp add: demo_table_state_def)
  let ?W = "ro_wrapped (demo_table_state [LTable 2]) 2"
  have wx: "luaV_settable demo_platform demo_scripts ?W (LTable 2) (LString ''x'') (LNumber (Fin 2))
      = Ok () (luaH_set ?W 2 (LString ''x'') (LNumber (Fin 2)))"
    by (subst ro_wrapped_write_present [OF n]) (simp_all add: x table_set_def)
  have wy: "luaV_settable demo_platform demo_scripts ?W (LTable 2) (LString ''y'') (LNumber (Fin 2))
      = Raise LUA_ERRRUN (LString ''Attempt to modify read-only table'') ?W"
    using ro_wrapped_write_absent [OF n y, of demo_platform demo_scripts "LNumber (Fin 2)"]
    by (simp add: w)
  have ry: "luaV_gettable demo_platform demo_scripts ?W (LTable 2) (LString ''y'')
      = Raise LUA_ERRRUN (LString ''loop in gettable'') ?W"
    by (rule ro_wrapped_read_absent [OF n y])
  have ry0: "luaV_gettable demo_platform demo_scripts (demo_table_state [LTable 2]) (LTable 2)
      (LString ''y'') = Ok LNil (demo_table_state [LTable 2])"
    by (simp add: luaV_gettable_plain [OF p] y)
  have g: "luaH_get (luaH_set ?W 2 (LString ''x'') (LNumber (Fin 2))) 2 (LString ''x'') = LNumber (Fin 2)"
    by (simp add: luaH_get_def luaH_set_def)
  show ?thesis
    by (simp add: demo_ro and_then_def wx wy ry ry0 g x)
qed

section \<open>Loading a tree of scripts\<close>

lemma lua_setglobal_plain:
  assumes "plain L" "stack L = xs @ [v]"
  shows "lua_setglobal P S L name =
     Ok () ((luaH_set L globals_ref (LString name) v)\<lparr>stack := xs\<rparr>)"
  using assms
  by (simp add: lua_setglobal_def luaV_settable_plain [OF assms(1) [unfolded plain_def]]
      table_set_def and_then_def index2value_from_top(1) [OF assms(2)] lua_pop_def luaH_set_def)

lemma lua_getglobal_plain:
  assumes "plain L"
  shows "lua_getglobal P S L name = Ok () (push L (luaH_get L globals_ref (LString name)))"
  by (simp add: lua_getglobal_def luaV_gettable_plain [OF assms [unfolded plain_def]] and_then_def)

lemmas tree_load_evaluation =
  pi_lua_dofile_recursive_def FileEnumerator_def demo_fs_def file_info_def IsDir_def IsFile_def
  has_lua_suffix_def demo_sub_def demo_mods_def demo_root_def lua_setglobal_def
  luaV_settable_plain demo_state_def globals_ref_def lua_pushstring_def c_str_def push_def
  index2value_def
  index2adr_def lua_gettop_def LUA_REGISTRYINDEX_def table_set_def luaH_set_def and_then_def
  lua_pop_def pi_lua_dofile_data_def lua_pushcfunction_def luaL_loadbuffer_def quiet_scripts_def
  lua_pcall_def lua_pcall_with_def call_value_def call_leaf_def run_function_def keep_store_def
  adjust_results_def current_directory_def luaH_get_def Let_def

text \<open>
  C5, at the failing input: the tree \<^verbatim>\<open>mods\<close> with \<^verbatim>\<open>a.lua\<close>, \<^verbatim>\<open>b.lua\<close>, \<^verbatim>\<open>sub/c.lua\<close> and
  \<^verbatim>\<open>notes.txt\<close>, loaded in a state with no Directory Context. The three scripts are run, in
  that order, each with the Directory Context of the directory being walked, and
  \<^verbatim>\<open>notes.txt\<close> is skipped; but when the tree load has returned the Directory Context is
  still \<^verbatim>\<open>mods/sub\<close>, the directory of the file run last, where it was absent before the
  load. \<^verbatim>\<open>pi_lua_dofile\<close> on the path of one of these files does clear it.
\<close>

theorem tree_load_leaves_directory_context:
  "current_directory (demo_state []) = LNil
   \<and> returns (pi_lua_dofile_recursive demo_platform quiet_scripts demo_fs (demo_state []) ''mods'')
   \<and> executed (final_state
         (pi_lua_dofile_recursive demo_platform quiet_scripts demo_fs (demo_state []) ''mods'')) =
       [(LChunk ''mods/a.lua'' ''a = 1'', LString ''mods''),
        (LChunk ''mods/b.lua'' ''b = 2'', LString ''mods''),
        (LChunk ''mods/sub/c.lua'' ''c = 3'', LString ''mods/sub'')]
   \<and> current_directory (final_state
         (pi_lua_dofile_recursive demo_platform quiet_scripts demo_fs (demo_state []) ''mods'')) =
       LString ''mods/sub''
   \<and> returns (pi_lua_dofile demo_platform quiet_scripts demo_fs (demo_state []) ''mods/a.lua'')
   \<and> executed (final_state
         (pi_lua_dofile demo_platform quiet_scripts demo_fs (demo_state []) ''mods/a.lua'')) =
       [(LChunk ''mods/a.lua'' ''a = 1'', LString ''mods'')]
   \<and> current_directory (final_state
         (pi_lua_dofile demo_platform quiet_scripts demo_fs (demo_state []) ''mods/a.lua'')) = LNil"
  by (simp add: tree_load_evaluation pi_lua_dofile_def ReadFile_def lua_pushnil_def)

section \<open>Loading a path\<close>

lemma and_then_Ok: "and_then (Ok a L) f = f a L"
  by (simp add: and_then_def)

lemma restore_directory_plain:
  assumes "plain L"
  shows "restore_directory P S cd L =
     Ok 0 (luaH_set L globals_ref (LString ''CurrentDirectory'') (restored_context cd))"
proof -
  let ?v = "restored_context cd"
  let ?L = "if cd = [] then lua_pushnil L else lua_pushlstring L cd"
  have p: "plain ?L" using assms by (simp add: plain_def lua_pushnil_def lua_pushlstring_def push_def)
  have s: "stack ?L = stack L @ [?v]"
    by (simp add: lua_pushnil_def lua_pushlstring_def push_def restored_context_def)
  have "lua_setglobal P S ?L ''CurrentDirectory'' =
      Ok () ((luaH_set ?L globals_ref (LString ''CurrentDirectory'') ?v)\<lparr>stack := stack L\<rparr>)"
    by (rule lua_setglobal_plain [OF p s])
  moreover have "(luaH_set ?L globals_ref (LString ''CurrentDirectory'') ?v)\<lparr>stack := stack L\<rparr>
      = luaH_set L globals_ref (LString ''CurrentDirectory'') ?v"
    by (simp add: luaH_set_def lua_pushnil_def lua_pushlstring_def push_def)
  ultimately show ?thesis
    unfolding restore_directory_def by (simp add: and_then_def)
qed

lemma pi_load_lua_dispatch:
  assumes st: "stack L = LString arg # rest" and p: "plain L"
    and ctx: "current_directory L = LNil \<or> (\<exists>s. current_directory L = LString s)"
  shows "pi_load_lua P S fs L =
     and_then
       (if IsDir (Lookup fs (c_str arg)) then pi_lua_dofile_recursive P S fs L (c_str arg)
        else if IsFile (Lookup fs (c_str arg)) \<and> has_lua_suffix (c_str arg)
          then pi_lua_dofile P S fs L (c_str arg)
        else if IsFile (Lookup fs (c_str arg)) then
          luaL_error L (''load_lua('' @ [CHR 0x27] @ c_str arg @ [CHR 0x27]
                        @ '') called on a file without a .lua extension'')
        else if \<not> Exists (Lookup fs (c_str arg)) then
          luaL_error L (''load_lua('' @ [CHR 0x27] @ c_str arg @ [CHR 0x27]
                        @ '') called on a path that doesn'' @ [CHR 0x27] @ ''t exist'')
        else
          luaL_error L (''load_lua('' @ [CHR 0x27] @ c_str arg @ [CHR 0x27]
                        @ '') called on a path that doesn'' @ [CHR 0x27] @ ''t refer to a valid file''))
       (\<lambda>u L4. restore_directory P S (saved_directory (current_directory L)) L4)"
proof -
  have a1: "index2adr L 1 = Some (LString arg)"
    using st by (simp add: index2adr_def lua_gettop_def)
  have cs: "luaL_checkstring P L 1 = Ok arg L"
    by (simp add: luaL_checkstring_def lua_tostring_def a1)
  define L1 where "L1 = push L (current_directory L)"
  have gg: "lua_getglobal P S L ''CurrentDirectory'' = Ok () L1"
    by (simp add: lua_getglobal_plain [OF p] L1_def current_directory_def)
  have top: "index2adr L1 (- 1) = Some (current_directory L)"
    by (rule index2adr_from_top(1) [where xs = "stack L"]) (simp add: L1_def push_def)
  have os: "\<exists>d. luaL_optstring P L1 (- 1) [] = Ok d L1
      \<and> c_str d = saved_directory (current_directory L)"
    using ctx
    by (auto simp: luaL_optstring_def lua_type_def top luaL_checkstring_def lua_tostring_def c_str_def)
  then obtain d where d: "luaL_optstring P L1 (- 1) [] = Ok d L1"
    "c_str d = saved_directory (current_directory L)" by blast
  have pop: "lua_pop L1 (Suc 0) = L" by (simp add: L1_def push_def lua_pop_def)
  show ?thesis
    unfolding pi_load_lua_def
    by (simp add: cs and_then_Ok gg d pop Let_def)
qed

text \<open>
  C6, as stated: a file with the recognized suffix triggers the single-file load, and the
  Directory Context observed before the call is restored after it. On the code the file
  whose whole path is \<^verbatim>\<open>.lua\<close> is refused as a file without the extension; and a Directory
  Context that was the empty string before a load is absent after it.
\<close>

theorem load_path_edge_cases:
  "pi_load_lua demo_platform quiet_scripts demo_fs (demo_state [LString ''.lua'']) =
     Raise LUA_ERRRUN
       (LString (''load_lua('' @ [CHR 0x27] @ ''.lua'' @ [CHR 0x27]
                 @ '') called on a file without a .lua extension''))
       (demo_state [LString ''.lua''])
   \<and> returns (pi_load_lua demo_platform quiet_scripts demo_fs
         (demo_context_state (LString []) [LString ''mods'']))
   \<and> current_directory (demo_context_state (LString []) [LString ''mods'']) = LString []
   \<and> current_directory (final_state (pi_load_lua demo_platform quiet_scripts demo_fs
         (demo_context_state (LString []) [LString ''mods'']))) = LNil"
  by (simp add: pi_load_lua_def luaL_checkstring_def lua_tostring_def lua_getglobal_def
      luaV_gettable_plain luaL_optstring_def lua_type_def Lookup_def Exists_def luaL_error_def
      restore_directory_def lua_pushnil_def demo_context_state_def tree_load_evaluation)

text \<open>
  C6, amended: for every path argument, in a state whose table of globals carries no
  metatable and whose Directory Context is absent or a string, \<^verbatim>\<open>pi_load_lua\<close> reads the
  argument and the Directory Context as C strings (up to their first byte 0) and dispatches
  on the path so read. A directory triggers the recursive tree load; a file whose path is
  longer than four characters and ends in \<^verbatim>\<open>.lua\<close> triggers the single-file load; any
  other file raises the error that it has no \<^verbatim>\<open>.lua\<close> extension, with nothing executed and
  the state untouched; a path that does not exist raises the error that it does not exist;
  any other target raises the error that it is no valid file. When the load returns, in
  a state whose table of globals still carries no metatable, \<^verbatim>\<open>pi_load_lua\<close> returns 0
  with the saved Directory Context put back, an empty one as absent: this is the value the
  Directory Context had before the call when that was absent or a non-empty string without
  a byte 0. When the load does not return, neither does \<^verbatim>\<open>pi_load_lua\<close>, and nothing is
  put back.
\<close>

theorem load_path_dispatch:
  assumes "stack L = LString arg # rest" "plain L"
    and "current_directory L = LNil \<or> (\<exists>s. current_directory L = LString s)"
  shows "(IsDir (Lookup fs (c_str arg)) \<longrightarrow>
          pi_load_lua P S fs L =
            and_then (pi_lua_dofile_recursive P S fs L (c_str arg))
              (\<lambda>u L4. restore_directory P S (saved_directory (current_directory L)) L4))
     \<and> (IsFile (Lookup fs (c_str arg)) \<and> has_lua_suffix (c_str arg) \<longrightarrow>
          pi_load_lua P S fs L =
            and_then (pi_lua_dofile P S fs L (c_str arg))
              (\<lambda>u L4. restore_directory P S (saved_directory (current_directory L)) L4))
     \<and> (IsFile (Lookup fs (c_str arg)) \<and> \<not> has_lua_suffix (c_str arg) \<longrightarrow>
          pi_load_lua P S fs L =
            Raise LUA_ERRRUN (LString (where1 L @ ''load_lua('' @ [CHR 0x27] @ c_str arg @ [CHR 0x27]
              @ '') called on a file without a .lua extension'')) L)
     \<and> (\<not> Exists (Lookup fs (c_str arg)) \<longrightarrow>
          pi_load_lua P S fs L =
            Raise LUA_ERRRUN (LString (where1 L @ ''load_lua('' @ [CHR 0x27] @ c_str arg @ [CHR 0x27]
              @ '') called on a path that doesn'' @ [CHR 0x27] @ ''t exist'')) L)
     \<and> (\<not> IsDir (Lookup fs (c_str arg)) \<and> \<not> IsFile (Lookup fs (c_str arg))
          \<and> Exists (Lookup fs (c_str arg)) \<longrightarrow>
          pi_load_lua P S fs L =
            Raise LUA_ERRRUN (LString (where1 L @ ''load_lua('' @ [CHR 0x27] @ c_str arg @ [CHR 0x27]
              @ '') called on a path that doesn'' @ [CHR 0x27] @ ''t refer to a valid file'')) L)
     \<and> (\<forall>L4. plain L4 \<longrightarrow>
          restore_directory P S (saved_directory (current_directory L)) L4 =
            Ok 0 (luaH_set L4 globals_ref (LString ''CurrentDirectory'')
                    (restored_context (saved_directory (current_directory L)))))
     \<and> (\<forall>L4. plain L4
          \<and> (IsDir (Lookup fs (c_str arg))
                \<and> pi_lua_dofile_recursive P S fs L (c_str arg) = Ok () L4
              \<or> IsFile (Lookup fs (c_str arg)) \<and> has_lua_suffix (c_str arg)
                \<and> pi_lua_dofile P S fs L (c_str arg) = Ok () L4) \<longrightarrow>
          pi_load_lua P S fs L =
            Ok 0 (luaH_set L4 globals_ref (LString ''CurrentDirectory'')
                    (restored_context (saved_directory (current_directory L)))))
     \<and> (current_directory L = LNil
          \<or> (\<exists>s. current_directory L = LString s \<and> s \<noteq> [] \<and> c_str s = s) \<longrightarrow>
          restored_context (saved_directory (current_directory L)) = current_directory L)"
proof -
  have d: "IsDir (Lookup fs (c_str arg)) \<Longrightarrow> \<not> IsFile (Lookup fs (c_str arg))"
    by (simp add: IsDir_def IsFile_def)
  have e: "\<not> Exists (Lookup fs (c_str arg)) \<Longrightarrow>
      \<not> IsFile (Lookup fs (c_str arg)) \<and> \<not> IsDir (Lookup fs (c_str arg))"
    by (simp add: IsDir_def IsFile_def Exists_def)
  have r: "restored_context (saved_directory (current_directory L)) = current_directory L"
    if "current_directory L = LNil
        \<or> (\<exists>s. current_directory L = LString s \<and> s \<noteq> [] \<and> c_str s = s)"
    using that by (auto simp: restored_context_def)
  show ?thesis
    using d e r
    by (auto simp: pi_load_lua_dispatch [OF assms] luaL_error_def and_then_def
        restore_directory_plain)
qed

theorem load_path_dispatch_witness:
  "stack (demo_state [LString (''mods/notes.txt'' @ [CHR 0x00] @ ''.lua'')])
     = LString (''mods/notes.txt'' @ [CHR 0x00] @ ''.lua'') # []
   \<and> plain (demo_state [LString (''mods/notes.txt'' @ [CHR 0x00] @ ''.lua'')])
   \<and> current_directory (demo_state [LString (''mods/notes.txt'' @ [CHR 0x00] @ ''.lua'')]) = LNil
   \<and> c_str (''mods/notes.txt'' @ [CHR 0x00] @ ''.lua'') = ''mods/notes.txt''
   \<and> IsFile (Lookup demo_fs ''mods/notes.txt'') \<and> \<not> has_lua_suffix ''mods/notes.txt''
   \<and> pi_load_lua demo_platform quiet_scripts demo_fs
        (demo_state [LString (''mods/notes.txt'' @ [CHR 0x00] @ ''.lua'')]) =
       Raise LUA_ERRRUN (LString (''load_lua('' @ [CHR 0x27] @ ''mods/notes.txt'' @ [CHR 0x27]
         @ '') called on a file without a .lua extension''))
         (demo_state [LString (''mods/notes.txt'' @ [CHR 0x00] @ ''.lua'')])"
proof -
  let ?arg = "''mods/notes.txt'' @ [CHR 0x00] @ ''.lua''"
  have h: "stack (demo_state [LString ?arg]) = LString ?arg # []"
    "plain (demo_state [LString ?arg])"
    "current_directory (demo_state [LString ?arg]) = LNil
      \<or> (\<exists>s. current_directory (demo_state [LString ?arg]) = LString s)"
    by (simp_all add: demo_state_def plain_def current_directory_def luaH_get_def)
  have c: "current_directory (demo_state [LString ?arg]) = LNil"
    by (simp add: demo_state_def current_directory_def luaH_get_def)
  have a: "c_str ?arg = ''mods/notes.txt''" by (simp add: c_str_def)
  have w: "where1 (demo_state [LString ?arg]) = []" by (simp add: demo_state_def)
  have f: "IsFile (Lookup demo_fs ''mods/notes.txt'')" "\<not> has_lua_suffix ''mods/notes.txt''"
    by (simp_all add: Lookup_def demo_fs_def file_info_def IsFile_def has_lua_suffix_def)
  from load_path_dispatch [OF h, of demo_fs demo_platform quiet_scripts] f
  have "pi_load_lua demo_platform quiet_scripts demo_fs (demo_state [LString ?arg]) =
       Raise LUA_ERRRUN (LString (''load_lua('' @ [CHR 0x27]
         @ ''mods/notes.txt'' @ [CHR 0x27] @ '') called on a file without a .lua extension''))
         (demo_state [LString ?arg])"
    unfolding a w append_Nil by blast
  with h(1,2) c a f show ?thesis by blast
qed

text \<open>
  The argument and the Directory Context are read up to their first byte 0: the argument
  \<^verbatim>\<open>mods/a.lua\<close> followed by a byte 0 and \<^verbatim>\<open>.txt\<close> loads the file \<^verbatim>\<open>mods/a.lua\<close>, and a
  Directory Context \<^verbatim>\<open>outer\<close> followed by a byte 0 and \<^verbatim>\<open>rest\<close> is put back as \<^verbatim>\<open>outer\<close>.
\<close>

lemma load_path_reads_c_strings:
  "returns (pi_load_lua demo_platform quiet_scripts demo_fs
      (demo_context_state (LString (''outer'' @ [CHR 0x00] @ ''rest''))
         [LString (''mods/a.lua'' @ [CHR 0x00] @ ''.txt'')]))
   \<and> executed (final_state (pi_load_lua demo_platform quiet_scripts demo_fs
      (demo_context_state (LString (''outer'' @ [CHR 0x00] @ ''rest''))
         [LString (''mods/a.lua'' @ [CHR 0x00] @ ''.txt'')])))
       = [(LChunk ''mods/a.lua'' ''a = 1'', LString ''mods'')]
   \<and> current_directory (final_state (pi_load_lua demo_platform quiet_scripts demo_fs
      (demo_context_state (LString (''outer'' @ [CHR 0x00] @ ''rest''))
         [LString (''mods/a.lua'' @ [CHR 0x00] @ ''.txt'')])))
       = LString ''outer''"
  by (simp add: pi_load_lua_def luaL_checkstring_def lua_tostring_def lua_getglobal_def
      luaV_gettable_plain luaL_optstring_def lua_type_def Lookup_def Exists_def luaL_error_def
      restore_directory_def lua_pushnil_def lua_pushlstring_def demo_context_state_def
      tree_load_evaluation pi_lua_dofile_def ReadFile_def)

section \<open>The standard facility allowlist\<close>

lemma overlay_Cons: "overlay ((k, v) # kvs) old = overlay kvs (old(LString k := v))"
  by (rule ext) (auto simp: overlay_def map_of_append split: lua_value.split option.split)

lemma overlay_Nil: "overlay [] old = old"
  by (rule ext) (simp add: overlay_def split: lua_value.split)

lemma register_entries_eq:
  "register_entries L r kvs =
     L\<lparr>tables := (tables L)(r := (tables L r)\<lparr>entries := overlay kvs (entries (tables L r))\<rparr>)\<rparr>"
proof (induction kvs arbitrary: L)
  case Nil
  then show ?case by (simp add: register_entries_def overlay_Nil)
next
  case (Cons kv kvs)
  obtain k v where kv: "kv = (k, v)" by (cases kv)
  let ?L = "luaH_set L r (LString k) v"
  have t: "tables ?L r = (tables L r)\<lparr>entries := (entries (tables L r))(LString k := v)\<rparr>"
    by (simp add: luaH_set_def)
  have "register_entries L r (kv # kvs) = register_entries ?L r kvs"
    by (simp add: register_entries_def kv)
  also have "\<dots> = ?L\<lparr>tables := (tables ?L)(r := (tables ?L r)
      \<lparr>entries := overlay kvs (entries (tables ?L r))\<rparr>)\<rparr>"
    by (rule Cons.IH)
  also have "\<dots> = L\<lparr>tables := (tables L)(r := (tables L r)
      \<lparr>entries := overlay (kv # kvs) (entries (tables L r))\<rparr>)\<rparr>"
    unfolding t kv overlay_Cons by (simp add: luaH_set_def)
  finally show ?case .
qed

lemma lua_setfield_plain:
  assumes "index2value L idx = LTable r" "metatable (tables L r) = None" "stack L = xs @ [v]"
  shows "lua_setfield P S L idx k = Ok () ((luaH_set L r (LString k) v)\<lparr>stack := xs\<rparr>)"
  using assms
  by (simp add: lua_setfield_def luaV_settable_plain table_set_def and_then_def
      index2value_from_top(1) [OF assms(3)] lua_pop_def luaH_set_def)

lemma lua_getfield_plain:
  assumes "index2value L idx = LTable r" "metatable (tables L r) = None"
  shows "lua_getfield P S L idx k = Ok () (push L (luaH_get L r (LString k)))"
  using assms by (simp add: lua_getfield_def luaV_gettable_plain and_then_def)

lemma index2value_registry: "index2value L LUA_REGISTRYINDEX = LTable registry_ref"
  by (simp add: index2value_def index2adr_def LUA_REGISTRYINDEX_def lua_gettop_def)

text \<open>A library other than the base library, required when the table of loaded modules exists.\<close>

lemma luaL_requiref_library:
  assumes o: "openf \<noteq> luaopen_base"
    and g: "metatable (tables L globals_ref) = None" and r: "metatable (tables L registry_ref) = None"
    and n: "2 \<le> ntables L"
    and q: "luaH_get L registry_ref (LString ''_LOADED'') = LTable q" "2 \<le> q" "q < ntables L"
      "metatable (tables L q) = None"
  shows "luaL_requiref P S L name openf True =
     Ok () (L\<lparr>stack := stack L @ [LTable (ntables L)],
              tables := (tables L)
                (ntables L := \<lparr>entries = lib_entries S openf, metatable = None\<rparr>,
                 q := (tables L q)\<lparr>entries := (entries (tables L q))(LString name := LTable (ntables L))\<rparr>,
                 globals_ref := (tables L globals_ref)
                   \<lparr>entries := (entries (tables L globals_ref))(LString name := LTable (ntables L))\<rparr>),
              ntables := Suc (ntables L)\<rparr>)"
proof -
  let ?n = "ntables L"
  define L1 where "L1 = open_library S L openf"
  have L1: "L1 = L\<lparr>stack := stack L @ [LTable ?n],
                   tables := (tables L)(?n := \<lparr>entries = lib_entries S openf, metatable = None\<rparr>),
                   ntables := Suc ?n\<rparr>"
    using o by (simp add: L1_def open_library_def register_entries_eq lua_newtable_def push_def
        lib_entries_def)
  have ne: "registry_ref \<noteq> ?n" "globals_ref \<noteq> ?n" "q \<noteq> ?n" "q \<noteq> registry_ref" "q \<noteq> globals_ref"
    using n q by (simp_all add: registry_ref_def globals_ref_def)
  have r1: "metatable (tables L1 registry_ref) = None" using r ne by (simp add: L1)
  have gf: "lua_getfield P S L1 LUA_REGISTRYINDEX ''_LOADED'' = Ok () (push L1 (LTable q))"
    by (subst lua_getfield_plain [OF index2value_registry r1])
      (use q(1) ne in \<open>simp add: L1 luaH_get_def\<close>)
  have ty: "lua_type (push L1 (LTable q)) (- 1) = LUA_TTABLE"
    by (simp add: lua_type_def index2adr_from_top(1) [where xs = "stack L1" and a = "LTable q"] push_def)
  have gs: "luaL_getsubtable P S L1 LUA_REGISTRYINDEX ''_LOADED'' = Ok () (push L1 (LTable q))"
    by (simp add: luaL_getsubtable_def gf and_then_Ok ty)
  define L2 where "L2 = lua_pushvalue (push L1 (LTable q)) (- 2)"
  have s2: "stack L2 = (stack L @ [LTable ?n, LTable q]) @ [LTable ?n]"
    by (simp add: L2_def lua_pushvalue_def push_def L1
        index2value_from_top(2) [where xs = "stack L" and a = "LTable ?n" and b = "LTable q"])
  have t2: "tables L2 = tables L1" "ntables L2 = ntables L1"
    by (simp_all add: L2_def lua_pushvalue_def push_def)
  have i2: "index2value L2 (- 2) = LTable q"
    by (rule index2value_from_top(2) [where xs = "stack L @ [LTable ?n]"]) (simp add: s2)
  have m2: "metatable (tables L2 q) = None" using q(4) ne by (simp add: t2 L1)
  have sf: "lua_setfield P S L2 (- 2) name =
      Ok () ((luaH_set L2 q (LString name) (LTable ?n))\<lparr>stack := stack L @ [LTable ?n, LTable q]\<rparr>)"
    by (rule lua_setfield_plain [OF i2 m2 s2])
  define L3 where "L3 = lua_pop ((luaH_set L2 q (LString name) (LTable ?n))\<lparr>stack := stack L @ [LTable ?n, LTable q]\<rparr>) (Suc 0)"
  have L3: "L3 = L\<lparr>stack := stack L @ [LTable ?n],
                   tables := (tables L)(?n := \<lparr>entries = lib_entries S openf, metatable = None\<rparr>,
                     q := (tables L q)\<lparr>entries := (entries (tables L q))(LString name := LTable ?n)\<rparr>),
                   ntables := Suc ?n\<rparr>"
    using ne by (simp add: L3_def lua_pop_def luaH_set_def t2 L1) (simp add: L2_def lua_pushvalue_def push_def L1)
  define L4 where "L4 = lua_pushvalue L3 (- 1)"
  have s4: "stack L4 = (stack L @ [LTable ?n]) @ [LTable ?n]"
    by (simp add: L4_def lua_pushvalue_def push_def L3
        index2value_from_top(1) [where xs = "stack L" and a = "LTable ?n"])
  have p4: "plain L4" using g ne by (simp add: L4_def plain_def lua_pushvalue_def push_def L3)
  have sg: "lua_setglobal P S L4 name =
      Ok () ((luaH_set L4 globals_ref (LString name) (LTable ?n))\<lparr>stack := stack L @ [LTable ?n]\<rparr>)"
    by (rule lua_setglobal_plain [OF p4 s4])
  have fin: "(luaH_set L4 globals_ref (LString name) (LTable ?n))\<lparr>stack := stack L @ [LTable ?n]\<rparr>
      = L\<lparr>stack := stack L @ [LTable ?n],
              tables := (tables L)
                (?n := \<lparr>entries = lib_entries S openf, metatable = None\<rparr>,
                 q := (tables L q)\<lparr>entries := (entries (tables L q))(LString name := LTable ?n)\<rparr>,
                 globals_ref := (tables L globals_ref)
                   \<lparr>entries := (entries (tables L globals_ref))(LString name := LTable ?n)\<rparr>),
              ntables := Suc ?n\<rparr>"
    using ne by (simp add: luaH_set_def L4_def lua_pushvalue_def push_def L3)
  show ?thesis
    unfolding luaL_requiref_def Let_def L1_def [symmetric]
    by (simp add: gs and_then_Ok L2_def [symmetric] sf L3_def [symmetric] L4_def [symmetric] sg fin)
qed

lemma require_library_step:
  assumes o: "openf \<noteq> luaopen_base" and rdy: "libs_ready L q"
  shows "\<exists>L'. and_then (luaL_requiref P S L name openf True) (\<lambda>u L1. Ok () (lua_pop L1 1)) = Ok () L'
     \<and> libs_ready L' q \<and> stack L' = stack L \<and> ntables L' = Suc (ntables L)
     \<and> tables L' (ntables L) = \<lparr>entries = lib_entries S openf, metatable = None\<rparr>
     \<and> entries (tables L' globals_ref) = (entries (tables L globals_ref))(LString name := LTable (ntables L))
     \<and> (\<forall>r. r \<noteq> ntables L \<and> r \<noteq> q \<and> r \<noteq> globals_ref \<longrightarrow> tables L' r = tables L r)"
proof -
  have pre: "metatable (tables L globals_ref) = None" "metatable (tables L registry_ref) = None"
    "2 \<le> ntables L" "luaH_get L registry_ref (LString ''_LOADED'') = LTable q" "2 \<le> q" "q < ntables L"
    "metatable (tables L q) = None"
    using rdy by (simp_all add: libs_ready_def)
  have ne: "registry_ref \<noteq> ntables L" "globals_ref \<noteq> ntables L" "q \<noteq> ntables L"
    "q \<noteq> registry_ref" "q \<noteq> globals_ref" "registry_ref \<noteq> globals_ref"
    using pre by (simp_all add: registry_ref_def globals_ref_def)
  show ?thesis
    unfolding luaL_requiref_library [OF o pre]
    using pre ne
    by (simp add: and_then_Ok lua_pop_def libs_ready_def luaH_get_def)
qed

lemma require_base_step:
  assumes fresh: "entries (tables L globals_ref) = (\<lambda>k. LNil)"
    "metatable (tables L globals_ref) = None" "metatable (tables L registry_ref) = None"
    "luaH_get L registry_ref (LString ''_LOADED'') = LNil" "2 \<le> ntables L"
  shows "\<exists>L'. and_then (luaL_requiref P S L ''_G'' luaopen_base True) (\<lambda>u L1. Ok () (lua_pop L1 1)) = Ok () L'
     \<and> libs_ready L' (ntables L) \<and> stack L' = stack L \<and> ntables L' = Suc (ntables L)
     \<and> entries (tables L' globals_ref) =
         (overlay (library S luaopen_base) (\<lambda>k. LNil))(LString ''_G'' := LTable globals_ref)"
proof -
  let ?n = "ntables L"
  let ?g = globals_ref
  have ne: "registry_ref \<noteq> ?n" "?g \<noteq> ?n" "registry_ref \<noteq> ?g"
    using fresh(5) by (simp_all add: registry_ref_def globals_ref_def)
  define G0 where "G0 = overlay (library S luaopen_base) ((\<lambda>k. LNil)(LString ''_G'' := LTable ?g))"
  define L1 where "L1 = open_library S L luaopen_base"
  have L1: "L1 = L\<lparr>stack := stack L @ [LTable ?g],
                   tables := (tables L)(?g := (tables L ?g)\<lparr>entries := G0\<rparr>)\<rparr>"
    using fresh(1) by (simp add: L1_def open_library_def register_entries_eq luaH_set_def push_def G0_def)
  have r1: "metatable (tables L1 registry_ref) = None" using fresh(3) ne by (simp add: L1)
  have gf: "lua_getfield P S L1 LUA_REGISTRYINDEX ''_LOADED'' = Ok () (push L1 LNil)"
    by (subst lua_getfield_plain [OF index2value_registry r1])
      (use fresh(4) ne in \<open>simp add: L1 luaH_get_def\<close>)
  have ty: "lua_type (push L1 LNil) (- 1) \<noteq> LUA_TTABLE"
    by (simp add: lua_type_def index2adr_from_top(1) [where xs = "stack L1" and a = LNil] push_def)
  define L2 where "L2 = lua_pushvalue (lua_newtable (lua_pop (push L1 LNil) (Suc 0))) (- 1)"
  have L2: "L2 = L\<lparr>stack := (stack L @ [LTable ?g, LTable ?n]) @ [LTable ?n],
                   tables := (tables L)(?g := (tables L ?g)\<lparr>entries := G0\<rparr>,
                      ?n := \<lparr>entries = (\<lambda>k. LNil), metatable = None\<rparr>),
                   ntables := Suc ?n\<rparr>"
    by (simp add: L2_def lua_pushvalue_def lua_newtable_def lua_pop_def push_def L1
        index2value_from_top(1) [where xs = "stack L @ [LTable ?g]" and a = "LTable ?n"])
  have r2: "metatable (tables L2 registry_ref) = None" using fresh(3) ne by (simp add: L2)
  have s2: "stack L2 = (stack L @ [LTable ?g, LTable ?n]) @ [LTable ?n]" by (simp add: L2)
  define L3 where "L3 = (luaH_set L2 registry_ref (LString ''_LOADED'') (LTable ?n))
      \<lparr>stack := stack L @ [LTable ?g, LTable ?n]\<rparr>"
  have sf: "lua_setfield P S L2 LUA_REGISTRYINDEX ''_LOADED'' = Ok () L3"
    unfolding L3_def by (rule lua_setfield_plain [OF index2value_registry r2 s2])
  have gs: "luaL_getsubtable P S L1 LUA_REGISTRYINDEX ''_LOADED'' = Ok () L3"
    using ty by (simp add: luaL_getsubtable_def gf and_then_Ok L2_def [symmetric] sf)
  define L4 where "L4 = lua_pushvalue L3 (- 2)"
  have s3: "stack L3 = stack L @ [LTable ?g, LTable ?n]" by (simp add: L3_def)
  have s4: "stack L4 = (stack L @ [LTable ?g, LTable ?n]) @ [LTable ?g]"
    by (simp add: L4_def lua_pushvalue_def push_def s3
        index2value_from_top(2) [where xs = "stack L" and a = "LTable ?g" and b = "LTable ?n", OF s3])
  have t4: "tables L4 = tables L3" by (simp add: L4_def lua_pushvalue_def push_def)
  have i4: "index2value L4 (- 2) = LTable ?n"
    by (rule index2value_from_top(2) [where xs = "stack L @ [LTable ?g]"]) (simp add: s4)
  have m4: "metatable (tables L4 ?n) = None" using ne by (simp add: t4 L3_def luaH_set_def L2)
  define L5 where "L5 = lua_pop ((luaH_set L4 ?n (LString ''_G'') (LTable ?g))
      \<lparr>stack := stack L @ [LTable ?g, LTable ?n]\<rparr>) (Suc 0)"
  have sf2: "lua_setfield P S L4 (- 2) ''_G'' = Ok () ((luaH_set L4 ?n (LString ''_G'') (LTable ?g))
      \<lparr>stack := stack L @ [LTable ?g, LTable ?n]\<rparr>)"
    by (rule lua_setfield_plain [OF i4 m4 s4])
  define L6 where "L6 = lua_pushvalue L5 (- 1)"
  have s5: "stack L5 = stack L @ [LTable ?g]" by (simp add: L5_def lua_pop_def luaH_set_def)
  have s6: "stack L6 = (stack L @ [LTable ?g]) @ [LTable ?g]"
    by (simp add: L6_def lua_pushvalue_def push_def s5
        index2value_from_top(1) [where xs = "stack L" and a = "LTable ?g", OF s5])
  have t6: "tables L6 = (tables L)(?g := (tables L ?g)\<lparr>entries := G0\<rparr>,
        ?n := \<lparr>entries = (\<lambda>k. LNil)(LString ''_G'' := LTable ?g), metatable = None\<rparr>,
        registry_ref := (tables L registry_ref)
          \<lparr>entries := (entries (tables L registry_ref))(LString ''_LOADED'' := LTable ?n)\<rparr>)"
    using ne
    by (simp add: L6_def lua_pushvalue_def push_def L5_def lua_pop_def luaH_set_def t4 L3_def L2
        fun_upd_twist)
  have n6: "ntables L6 = Suc ?n" "stderr L6 = stderr L"
    by (simp_all add: L6_def lua_pushvalue_def push_def L5_def lua_pop_def luaH_set_def L4_def L3_def L2)
  have p6: "plain L6" using fresh(2) ne by (simp add: plain_def t6)
  define L7 where "L7 = (luaH_set L6 ?g (LString ''_G'') (LTable ?g))\<lparr>stack := stack L @ [LTable ?g]\<rparr>"
  have sg: "lua_setglobal P S L6 ''_G'' = Ok () L7"
    unfolding L7_def by (rule lua_setglobal_plain [OF p6 s6])
  have rq: "luaL_requiref P S L ''_G'' luaopen_base True = Ok () L7"
    unfolding luaL_requiref_def Let_def L1_def [symmetric]
    by (simp add: gs and_then_Ok L4_def [symmetric] sf2 L5_def [symmetric] L6_def [symmetric] sg)
  have g0: "G0(LString ''_G'' := LTable ?g)
      = (overlay (library S luaopen_base) (\<lambda>k. LNil))(LString ''_G'' := LTable ?g)"
    by (rule ext) (simp add: G0_def overlay_def split: lua_value.split option.split)
  show ?thesis
    unfolding rq and_then_Ok
    using ne fresh
    by (simp add: lua_pop_def L7_def luaH_set_def t6 n6 libs_ready_def luaH_get_def g0)
qed

lemma open_libs_Cons:
  assumes "and_then (luaL_requiref P S L name openf True) (\<lambda>u L1. Ok () (lua_pop L1 1)) = Ok () L'"
  shows "open_libs P S L ((name, openf) # libs) = open_libs P S L' libs"
  using assms by (cases "luaL_requiref P S L name openf True") (simp_all add: and_then_def)

lemma open_libs_standard:
  assumes fresh: "entries (tables L globals_ref) = (\<lambda>k. LNil)"
    "metatable (tables L globals_ref) = None" "metatable (tables L registry_ref) = None"
    "luaH_get L registry_ref (LString ''_LOADED'') = LNil" "2 \<le> ntables L"
  shows "\<exists>L'. open_libs P S L STANDARD_LIBS = Ok () L'
     \<and> stack L' = stack L \<and> metatable (tables L' globals_ref) = None
     \<and> entries (tables L' globals_ref) =
         (overlay (library S luaopen_base) (\<lambda>k. LNil))
           (LString ''_G'' := LTable globals_ref,
            LString ''coroutine'' := LTable (ntables L + 1),
            LString ''table'' := LTable (ntables L + 2),
            LString ''string'' := LTable (ntables L + 3),
            LString ''bit32'' := LTable (ntables L + 4),
            LString ''math'' := LTable (ntables L + 5),
            LString ''debug'' := LTable (ntables L + 6))
     \<and> tables L' (ntables L + 1) = \<lparr>entries = lib_entries S luaopen_coroutine, metatable = None\<rparr>
     \<and> tables L' (ntables L + 2) = \<lparr>entries = lib_entries S luaopen_table, metatable = None\<rparr>
     \<and> tables L' (ntables L + 3) = \<lparr>entries = lib_entries S luaopen_string, metatable = None\<rparr>
     \<and> tables L' (ntables L + 4) = \<lparr>entries = lib_entries S luaopen_bit32, metatable = None\<rparr>
     \<and> tables L' (ntables L + 5) = \<lparr>entries = lib_entries S luaopen_math, metatable = None\<rparr>
     \<and> tables L' (ntables L + 6) = \<lparr>entries = lib_entries S luaopen_debug, metatable = None\<rparr>"
proof -
  let ?n = "ntables L"
  have g: "globals_ref < ?n" using fresh(5) by (simp add: globals_ref_def)
  obtain B where B: "and_then (luaL_requiref P S L ''_G'' luaopen_base True) (\<lambda>u L1. Ok () (lua_pop L1 1)) = Ok () B"
    and rB: "libs_ready B ?n" and sB: "stack B = stack L" and nB: "ntables B = Suc ?n"
    and gB: "entries (tables B globals_ref) =
         (overlay (library S luaopen_base) (\<lambda>k. LNil))(LString ''_G'' := LTable globals_ref)"
    using require_base_step [OF fresh, of P S] by blast
  obtain C1 where C1: "and_then (luaL_requiref P S B ''coroutine'' luaopen_coroutine True) (\<lambda>u L1. Ok () (lua_pop L1 1)) = Ok () C1"
    and r1: "libs_ready C1 ?n" and s1: "stack C1 = stack B" and n1: "ntables C1 = Suc (ntables B)"
    and t1: "tables C1 (ntables B) = \<lparr>entries = lib_entries S luaopen_coroutine, metatable = None\<rparr>"
    and g1: "entries (tables C1 globals_ref) = (entries (tables B globals_ref))(LString ''coroutine'' := LTable (ntables B))"
    using require_library_step [OF _ rB, of luaopen_coroutine P S "''coroutine''"] by auto
  obtain C2 where C2: "and_then (luaL_requiref P S C1 ''table'' luaopen_table True) (\<lambda>u L1. Ok () (lua_pop L1 1)) = Ok () C2"
    and r2: "libs_ready C2 ?n" and s2: "stack C2 = stack C1" and n2: "ntables C2 = Suc (ntables C1)"
    and t2: "tables C2 (ntables C1) = \<lparr>entries = lib_entries S luaopen_table, metatable = None\<rparr>"
    and g2: "entries (tables C2 globals_ref) = (entries (tables C1 globals_ref))(LString ''table'' := LTable (ntables C1))"
    and o2: "\<And>r. r \<noteq> ntables C1 \<Longrightarrow> r \<noteq> ?n \<Longrightarrow> r \<noteq> globals_ref \<Longrightarrow> tables C2 r = tables C1 r"
    using require_library_step [OF _ r1, of luaopen_table P S "''table''"] by auto
  obtain C3 where C3: "and_then (luaL_requiref P S C2 ''string'' luaopen_string True) (\<lambda>u L1. Ok () (lua_pop L1 1)) = Ok () C3"
    and r3: "libs_ready C3 ?n" and s3: "stack C3 = stack C2" and n3: "ntables C3 = Suc (ntables C2)"
    and t3: "tables C3 (ntables C2) = \<lparr>entries = lib_entries S luaopen_string, metatable = None\<rparr>"
    and g3: "entries (tables C3 globals_ref) = (entries (tables C2 globals_ref))(LString ''string'' := LTable (ntables C2))"
    and o3: "\<And>r. r \<noteq> ntables C2 \<Longrightarrow> r \<noteq> ?n \<Longrightarrow> r \<noteq> globals_ref \<Longrightarrow> tables C3 r = tables C2 r"
    using require_library_step [OF _ r2, of luaopen_string P S "''string''"] by auto
  obtain C4 where C4: "and_then (luaL_requiref P S C3 ''bit32'' luaopen_bit32 True) (\<lambda>u L1. Ok () (lua_pop L1 1)) = Ok () C4"
    and r4: "libs_ready C4 ?n" and s4: "stack C4 = stack C3" and n4: "ntables C4 = Suc (ntables C3)"
    and t4: "tables C4 (ntables C3) = \<lparr>entries = lib_entries S luaopen_bit32, metatable = None\<rparr>"
    and g4: "entries (tables C4 globals_ref) = (entries (tables C3 globals_ref))(LString ''bit32'' := LTable (ntables C3))"
    and o4: "\<And>r. r \<noteq> ntables C3 \<Longrightarrow> r \<noteq> ?n \<Longrightarrow> r \<noteq> globals_ref \<Longrightarrow> tables C4 r = tables C3 r"
    using require_library_step [OF _ r3, of luaopen_bit32 P S "''bit32''"] by auto
  obtain C5 where C5: "and_then (luaL_requiref P S C4 ''math'' luaopen_math True) (\<lambda>u L1. Ok () (lua_pop L1 1)) = Ok () C5"
    and r5: "libs_ready C5 ?n" and s5: "stack C5 = stack C4" and n5: "ntables C5 = Suc (ntables C4)"
    and t5: "tables C5 (ntables C4) = \<lparr>entries = lib_entries S luaopen_math, metatable = None\<rparr>"
    and g5: "entries (tables C5 globals_ref) = (entries (tables C4 globals_ref))(LString ''math'' := LTable (ntables C4))"
    and o5: "\<And>r. r \<noteq> ntables C4 \<Longrightarrow> r \<noteq> ?n \<Longrightarrow> r \<noteq> globals_ref \<Longrightarrow> tables C5 r = tables C4 r"
    using require_library_step [OF _ r4, of luaopen_math P S "''math''"] by auto
  obtain C6 where C6: "and_then (luaL_requiref P S C5 ''debug'' luaopen_debug True) (\<lambda>u L1. Ok () (lua_pop L1 1)) = Ok () C6"
    and r6: "libs_ready C6 ?n" and s6: "stack C6 = stack C5" and n6: "ntables C6 = Suc (ntables C5)"
    and t6: "tables C6 (ntables C5) = \<lparr>entries = lib_entries S luaopen_debug, metatable = None\<rparr>"
    and g6: "entries (tables C6 globals_ref) = (entries (tables C5 globals_ref))(LString ''debug'' := LTable (ntables C5))"
    and o6: "\<And>r. r \<noteq> ntables C5 \<Longrightarrow> r \<noteq> ?n \<Longrightarrow> r \<noteq> globals_ref \<Longrightarrow> tables C6 r = tables C5 r"
    using require_library_step [OF _ r5, of luaopen_debug P S "''debug''"] by auto
  have run: "open_libs P S L STANDARD_LIBS = Ok () C6"
    unfolding STANDARD_LIBS_def
    by (simp only: open_libs_Cons [OF B] open_libs_Cons [OF C1] open_libs_Cons [OF C2]
        open_libs_Cons [OF C3] open_libs_Cons [OF C4] open_libs_Cons [OF C5] open_libs_Cons [OF C6]
        open_libs.simps(1))
  have nn: "ntables B = ?n + 1" "ntables C1 = ?n + 2" "ntables C2 = ?n + 3" "ntables C3 = ?n + 4"
    "ntables C4 = ?n + 5" "ntables C5 = ?n + 6"
    by (simp_all add: nB n1 n2 n3 n4 n5)
  have T1: "tables C6 (?n + 1) = \<lparr>entries = lib_entries S luaopen_coroutine, metatable = None\<rparr>"
    using g t1 by (simp add: o6 o5 o4 o3 o2 nn)
  have T2: "tables C6 (?n + 2) = \<lparr>entries = lib_entries S luaopen_table, metatable = None\<rparr>"
    using g t2 by (simp add: o6 o5 o4 o3 nn)
  have T3: "tables C6 (?n + 3) = \<lparr>entries = lib_entries S luaopen_string, metatable = None\<rparr>"
    using g t3 by (simp add: o6 o5 o4 nn)
  have T4: "tables C6 (?n + 4) = \<lparr>entries = lib_entries S luaopen_bit32, metatable = None\<rparr>"
    using g t4 by (simp add: o6 o5 nn)
  have T5: "tables C6 (?n + 5) = \<lparr>entries = lib_entries S luaopen_math, metatable = None\<rparr>"
    using g t5 by (simp add: o6 nn)
  have T6: "tables C6 (?n + 6) = \<lparr>entries = lib_entries S luaopen_debug, metatable = None\<rparr>"
    using t6 by (simp add: nn)
  have G: "entries (tables C6 globals_ref) =
         (overlay (library S luaopen_base) (\<lambda>k. LNil))
           (LString ''_G'' := LTable globals_ref,
            LString ''coroutine'' := LTable (?n + 1),
            LString ''table'' := LTable (?n + 2),
            LString ''string'' := LTable (?n + 3),
            LString ''bit32'' := LTable (?n + 4),
            LString ''math'' := LTable (?n + 5),
            LString ''debug'' := LTable (?n + 6))"
    unfolding g6 g5 g4 g3 g2 g1 gB nn ..
  have M: "metatable (tables C6 globals_ref) = None" using r6 by (simp add: libs_ready_def)
  have St: "stack C6 = stack L" by (simp add: s6 s5 s4 s3 s2 s1 sB)
  show ?thesis using run St M G T1 T2 T3 T4 T5 T6 by blast
qed

lemma math_adjustments:
  assumes p: "metatable (tables L globals_ref) = None"
    and gm: "entries (tables L globals_ref) (LString ''math'') = LTable m"
    and mg: "m \<noteq> globals_ref"
    and tm: "tables L m = \<lparr>entries = lib_entries S luaopen_math, metatable = None\<rparr>"
    and rad: "ttype (registered (library S luaopen_math) ''rad'') = LUA_TFUNCTION"
  shows "\<exists>L'.
     and_then (lua_setglobal P S (lua_pushnil L) ''dofile'') (\<lambda>u L2.
     and_then (lua_setglobal P S (lua_pushnil L2) ''loadfile'') (\<lambda>u L3.
     and_then (lua_getglobal P S L3 ''math'') (\<lambda>u L4.
     and_then (lua_setfield P S (lua_pushnil L4) (- 2) ''random'') (\<lambda>u L5.
     and_then (lua_setfield P S (lua_pushnil L5) (- 2) ''randomseed'') (\<lambda>u L6.
     and_then (lua_getfield P S L6 (- 1) ''rad'') (\<lambda>u L7.
     if lua_type L7 (- 1) \<noteq> LUA_TFUNCTION then Abort L7
     else
     and_then (lua_setfield P S L7 (- 2) ''deg2rad'') (\<lambda>u L8.
     and_then (lua_setfield P S (lua_pushcfunction L8 CF_l_hash_random) (- 2) ''hash_random'') (\<lambda>u L9.
     Ok () (lua_pop L9 1))))))))) = Ok () L'
     \<and> stack L' = stack L
     \<and> entries (tables L' globals_ref) =
          (entries (tables L globals_ref))(LString ''dofile'' := LNil, LString ''loadfile'' := LNil)
     \<and> entries (tables L' m) =
          (lib_entries S luaopen_math)
            (LString ''random'' := LNil, LString ''randomseed'' := LNil,
             LString ''deg2rad'' := registered (library S luaopen_math) ''rad'',
             LString ''hash_random'' := LCFunction CF_l_hash_random)
     \<and> (\<forall>r. r \<noteq> globals_ref \<and> r \<noteq> m \<longrightarrow> tables L' r = tables L r)"
proof -
  let ?g = globals_ref
  let ?rad = "registered (library S luaopen_math) ''rad''"
  have le: "lib_entries S luaopen_math (LString ''rad'') = ?rad"
    by (simp add: lib_entries_def overlay_def registered_def)
  define L2 where "L2 = (luaH_set (lua_pushnil L) ?g (LString ''dofile'') LNil)\<lparr>stack := stack L\<rparr>"
  have e2: "lua_setglobal P S (lua_pushnil L) ''dofile'' = Ok () L2"
    unfolding L2_def
    by (rule lua_setglobal_plain) (simp_all add: plain_def lua_pushnil_def push_def p)
  have L2: "L2 = L\<lparr>tables := (tables L)(?g := (tables L ?g)
      \<lparr>entries := (entries (tables L ?g))(LString ''dofile'' := LNil)\<rparr>)\<rparr>"
    by (simp add: L2_def luaH_set_def lua_pushnil_def push_def)
  define L3 where "L3 = (luaH_set (lua_pushnil L2) ?g (LString ''loadfile'') LNil)\<lparr>stack := stack L\<rparr>"
  have e3: "lua_setglobal P S (lua_pushnil L2) ''loadfile'' = Ok () L3"
    unfolding L3_def
    by (rule lua_setglobal_plain) (simp_all add: plain_def lua_pushnil_def push_def p L2)
  have L3: "L3 = L\<lparr>tables := (tables L)(?g := (tables L ?g)
      \<lparr>entries := (entries (tables L ?g))(LString ''dofile'' := LNil, LString ''loadfile'' := LNil)\<rparr>)\<rparr>"
    by (simp add: L3_def luaH_set_def lua_pushnil_def push_def L2)
  define L4 where "L4 = push L3 (LTable m)"
  have e4: "lua_getglobal P S L3 ''math'' = Ok () L4"
    by (subst lua_getglobal_plain) (simp_all add: plain_def L3 p L4_def luaH_get_def gm)
  have s4: "stack (lua_pushnil L4) = (stack L @ [LTable m]) @ [LNil]"
    by (simp add: L4_def lua_pushnil_def push_def L3)
  have t4: "tables (lua_pushnil L4) = tables L3" by (simp add: L4_def lua_pushnil_def push_def)
  have t4': "tables L4 = tables L3" by (simp add: L4_def push_def)
  have m3: "tables L3 m = tables L m" using mg by (simp add: L3)
  define L5 where "L5 = (luaH_set (lua_pushnil L4) m (LString ''random'') LNil)\<lparr>stack := stack L @ [LTable m]\<rparr>"
  have e5: "lua_setfield P S (lua_pushnil L4) (- 2) ''random'' = Ok () L5"
    unfolding L5_def
    by (rule lua_setfield_plain [OF index2value_from_top(2) [where xs = "stack L"] _ s4])
      (simp_all add: s4 t4 m3 tm)
  have s5: "stack (lua_pushnil L5) = (stack L @ [LTable m]) @ [LNil]"
    by (simp add: L5_def lua_pushnil_def push_def)
  have t5: "tables (lua_pushnil L5) = (tables L3)(m := (tables L m)
      \<lparr>entries := (lib_entries S luaopen_math)(LString ''random'' := LNil)\<rparr>)"
    by (simp add: L5_def lua_pushnil_def push_def luaH_set_def t4' m3 tm)
  define L6 where "L6 = (luaH_set (lua_pushnil L5) m (LString ''randomseed'') LNil)\<lparr>stack := stack L @ [LTable m]\<rparr>"
  have e6: "lua_setfield P S (lua_pushnil L5) (- 2) ''randomseed'' = Ok () L6"
    unfolding L6_def
    by (rule lua_setfield_plain [OF index2value_from_top(2) [where xs = "stack L"] _ s5])
      (simp_all add: s5 t5 tm)
  have s6: "stack L6 = stack L @ [LTable m]" by (simp add: L6_def)
  have t6: "tables L6 = (tables L3)(m := (tables L m)
      \<lparr>entries := (lib_entries S luaopen_math)(LString ''random'' := LNil, LString ''randomseed'' := LNil)\<rparr>)"
    by (simp add: L6_def luaH_set_def t5 tm)
  define L7 where "L7 = push L6 ?rad"
  have e7: "lua_getfield P S L6 (- 1) ''rad'' = Ok () L7"
    by (subst lua_getfield_plain [OF index2value_from_top(1) [OF s6]])
      (simp_all add: t6 tm L7_def luaH_get_def le)
  have s7: "stack L7 = (stack L @ [LTable m]) @ [?rad]" by (simp add: L7_def push_def s6)
  have ty: "lua_type L7 (- 1) = LUA_TFUNCTION"
    by (simp add: lua_type_def index2adr_from_top(1) [OF s7] rad)
  have t7: "tables L7 = tables L6" by (simp add: L7_def push_def)
  define L8 where "L8 = (luaH_set L7 m (LString ''deg2rad'') ?rad)\<lparr>stack := stack L @ [LTable m]\<rparr>"
  have e8: "lua_setfield P S L7 (- 2) ''deg2rad'' = Ok () L8"
    unfolding L8_def
    by (rule lua_setfield_plain [OF index2value_from_top(2) [where xs = "stack L"] _ s7])
      (simp_all add: s7 t7 t6 tm)
  have s8: "stack (lua_pushcfunction L8 CF_l_hash_random) = (stack L @ [LTable m]) @ [LCFunction CF_l_hash_random]"
    by (simp add: L8_def lua_pushcfunction_def push_def)
  have t8: "tables (lua_pushcfunction L8 CF_l_hash_random) = (tables L3)(m := (tables L m)
      \<lparr>entries := (lib_entries S luaopen_math)(LString ''random'' := LNil, LString ''randomseed'' := LNil,
          LString ''deg2rad'' := ?rad)\<rparr>)"
    by (simp add: L8_def lua_pushcfunction_def push_def luaH_set_def t7 t6 tm)
  define L9 where "L9 = (luaH_set (lua_pushcfunction L8 CF_l_hash_random) m (LString ''hash_random'')
      (LCFunction CF_l_hash_random))\<lparr>stack := stack L @ [LTable m]\<rparr>"
  have e9: "lua_setfield P S (lua_pushcfunction L8 CF_l_hash_random) (- 2) ''hash_random'' = Ok () L9"
    unfolding L9_def
    by (rule lua_setfield_plain [OF index2value_from_top(2) [where xs = "stack L"] _ s8])
      (simp_all add: s8 t8 tm)
  have t9: "tables L9 = (tables L3)(m := (tables L m)
      \<lparr>entries := (lib_entries S luaopen_math)(LString ''random'' := LNil, LString ''randomseed'' := LNil,
          LString ''deg2rad'' := ?rad, LString ''hash_random'' := LCFunction CF_l_hash_random)\<rparr>)"
    by (simp add: L9_def luaH_set_def t8 tm)
  have s9: "stack (lua_pop L9 (Suc 0)) = stack L" by (simp add: L9_def lua_pop_def)
  have t9': "tables (lua_pop L9 (Suc 0)) = tables L9" by (simp add: lua_pop_def)
  have run: "and_then (lua_setglobal P S (lua_pushnil L) ''dofile'') (\<lambda>u L2.
     and_then (lua_setglobal P S (lua_pushnil L2) ''loadfile'') (\<lambda>u L3.
     and_then (lua_getglobal P S L3 ''math'') (\<lambda>u L4.
     and_then (lua_setfield P S (lua_pushnil L4) (- 2) ''random'') (\<lambda>u L5.
     and_then (lua_setfield P S (lua_pushnil L5) (- 2) ''randomseed'') (\<lambda>u L6.
     and_then (lua_getfield P S L6 (- 1) ''rad'') (\<lambda>u L7.
     if lua_type L7 (- 1) \<noteq> LUA_TFUNCTION then Abort L7
     else
     and_then (lua_setfield P S L7 (- 2) ''deg2rad'') (\<lambda>u L8.
     and_then (lua_setfield P S (lua_pushcfunction L8 CF_l_hash_random) (- 2) ''hash_random'') (\<lambda>u L9.
     Ok () (lua_pop L9 1))))))))) = Ok () (lua_pop L9 1)"
    by (simp only: e2 and_then_Ok e3 e4 e5 e6 e7 ty e8 e9 simp_thms if_False)
  show ?thesis
    unfolding run using mg by (simp add: s9 t9' t9 L3)
qed

lemma sandbox_globals_eq:
  "(overlay (library S luaopen_base) (\<lambda>k. LNil))
           (LString ''_G'' := LTable globals_ref,
            LString ''coroutine'' := LTable (n + 1),
            LString ''table'' := LTable (n + 2),
            LString ''string'' := LTable (n + 3),
            LString ''bit32'' := LTable (n + 4),
            LString ''math'' := LTable (n + 5),
            LString ''debug'' := LTable (n + 6),
            LString ''dofile'' := LNil, LString ''loadfile'' := LNil) = sandbox_globals S n"
  by (rule ext) (simp add: sandbox_globals_def overlay_def registered_def split: lua_value.split)

lemma sandbox_math_eq:
  "(lib_entries S luaopen_math)
            (LString ''random'' := LNil, LString ''randomseed'' := LNil,
             LString ''deg2rad'' := registered (library S luaopen_math) ''rad'',
             LString ''hash_random'' := LCFunction CF_l_hash_random) = sandbox_math S"
  by (rule ext) (simp add: sandbox_math_def lib_entries_def overlay_def registered_def split: lua_value.split)

text \<open>
  C4: in a fresh state (no global defined, no metatable on the table of globals or on the
  registry, no table of loaded modules yet), with a math library that registers a function
  under \<^verbatim>\<open>rad\<close> and a base library that registers nothing under \<^verbatim>\<open>package\<close>, \<^verbatim>\<open>io\<close>, \<^verbatim>\<open>os\<close>
  and \<^verbatim>\<open>require\<close>, \<^verbatim>\<open>pi_lua_open_standard_base\<close> returns, with the stack as it was. The
  table of globals then holds exactly: what the base library registered, itself under \<^verbatim>\<open>_G\<close>,
  the six library tables under \<^verbatim>\<open>coroutine\<close>, \<^verbatim>\<open>table\<close>, \<^verbatim>\<open>string\<close>, \<^verbatim>\<open>bit32\<close>, \<^verbatim>\<open>math\<close> and
  \<^verbatim>\<open>debug\<close>, and nothing under \<^verbatim>\<open>dofile\<close> and \<^verbatim>\<open>loadfile\<close>; so \<^verbatim>\<open>package\<close>, \<^verbatim>\<open>io\<close>, \<^verbatim>\<open>os\<close>,
  \<^verbatim>\<open>require\<close>, \<^verbatim>\<open>dofile\<close> and \<^verbatim>\<open>loadfile\<close> are absent. Each library table holds what its
  opener registered, except that in the math table \<^verbatim>\<open>random\<close> and \<^verbatim>\<open>randomseed\<close> are absent,
  \<^verbatim>\<open>deg2rad\<close> is the value of \<^verbatim>\<open>rad\<close> and \<^verbatim>\<open>hash_random\<close> is \<^verbatim>\<open>l_hash_random\<close>.
\<close>

theorem sandboxed_environment:
  assumes fresh: "entries (tables L globals_ref) = (\<lambda>k. LNil)"
    "metatable (tables L globals_ref) = None" "metatable (tables L registry_ref) = None"
    "luaH_get L registry_ref (LString ''_LOADED'') = LNil" "2 \<le> ntables L"
    and rad: "ttype (registered (library S luaopen_math) ''rad'') = LUA_TFUNCTION"
    and base: "\<forall>s \<in> {''package'', ''io'', ''os'', ''require''}.
                 registered (library S luaopen_base) s = LNil"
  shows "\<exists>L'. pi_lua_open_standard_base P S L = Ok () L' \<and> stack L' = stack L
     \<and> entries (tables L' globals_ref) = sandbox_globals S (ntables L)
     \<and> entries (tables L' (ntables L + 1)) = lib_entries S luaopen_coroutine
     \<and> entries (tables L' (ntables L + 2)) = lib_entries S luaopen_table
     \<and> entries (tables L' (ntables L + 3)) = lib_entries S luaopen_string
     \<and> entries (tables L' (ntables L + 4)) = lib_entries S luaopen_bit32
     \<and> entries (tables L' (ntables L + 5)) = sandbox_math S
     \<and> entries (tables L' (ntables L + 6)) = lib_entries S luaopen_debug
     \<and> (\<forall>s \<in> {''package'', ''io'', ''os'', ''require'', ''dofile'', ''loadfile''}.
           luaH_get L' globals_ref (LString s) = LNil)
     \<and> luaH_get L' globals_ref (LString ''math'') = LTable (ntables L + 5)
     \<and> luaH_get L' (ntables L + 5) (LString ''random'') = LNil
     \<and> luaH_get L' (ntables L + 5) (LString ''randomseed'') = LNil
     \<and> luaH_get L' (ntables L + 5) (LString ''deg2rad'')
         = luaH_get L' (ntables L + 5) (LString ''rad'')
     \<and> luaH_get L' (ntables L + 5) (LString ''hash_random'') = LCFunction CF_l_hash_random"
proof -
  let ?n = "ntables L"
  have g: "globals_ref < ?n" using fresh(5) by (simp add: globals_ref_def)
  obtain L1 where run1: "open_libs P S L STANDARD_LIBS = Ok () L1"
    and s1: "stack L1 = stack L" and m1: "metatable (tables L1 globals_ref) = None"
    and g1: "entries (tables L1 globals_ref) =
         (overlay (library S luaopen_base) (\<lambda>k. LNil))
           (LString ''_G'' := LTable globals_ref,
            LString ''coroutine'' := LTable (?n + 1),
            LString ''table'' := LTable (?n + 2),
            LString ''string'' := LTable (?n + 3),
            LString ''bit32'' := LTable (?n + 4),
            LString ''math'' := LTable (?n + 5),
            LString ''debug'' := LTable (?n + 6))"
    and t1: "tables L1 (?n + 1) = \<lparr>entries = lib_entries S luaopen_coroutine, metatable = None\<rparr>"
      "tables L1 (?n + 2) = \<lparr>entries = lib_entries S luaopen_table, metatable = None\<rparr>"
      "tables L1 (?n + 3) = \<lparr>entries = lib_entries S luaopen_string, metatable = None\<rparr>"
      "tables L1 (?n + 4) = \<lparr>entries = lib_entries S luaopen_bit32, metatable = None\<rparr>"
      "tables L1 (?n + 6) = \<lparr>entries = lib_entries S luaopen_debug, metatable = None\<rparr>"
    and t5: "tables L1 (?n + 5) = \<lparr>entries = lib_entries S luaopen_math, metatable = None\<rparr>"
    using open_libs_standard [OF fresh, of P S] by blast
  have gm: "entries (tables L1 globals_ref) (LString ''math'') = LTable (?n + 5)"
    by (simp add: g1)
  have mg: "?n + 5 \<noteq> globals_ref" using g by simp
  obtain L' where run2: "pi_lua_open_standard_base P S L = Ok () L'"
    and s2: "stack L' = stack L1"
    and g2: "entries (tables L' globals_ref) =
          (entries (tables L1 globals_ref))(LString ''dofile'' := LNil, LString ''loadfile'' := LNil)"
    and t2: "entries (tables L' (?n + 5)) =
          (lib_entries S luaopen_math)
            (LString ''random'' := LNil, LString ''randomseed'' := LNil,
             LString ''deg2rad'' := registered (library S luaopen_math) ''rad'',
             LString ''hash_random'' := LCFunction CF_l_hash_random)"
    and o2: "\<And>r. r \<noteq> globals_ref \<Longrightarrow> r \<noteq> ?n + 5 \<Longrightarrow> tables L' r = tables L1 r"
    using math_adjustments [OF m1 gm mg t5 rad, of P]
    unfolding pi_lua_open_standard_base_def run1 and_then_Ok by auto
  have G: "entries (tables L' globals_ref) = sandbox_globals S ?n"
    unfolding g2 g1 by (rule sandbox_globals_eq)
  have M: "entries (tables L' (?n + 5)) = sandbox_math S"
    unfolding t2 by (rule sandbox_math_eq)
  have T: "entries (tables L' (?n + 1)) = lib_entries S luaopen_coroutine"
    "entries (tables L' (?n + 2)) = lib_entries S luaopen_table"
    "entries (tables L' (?n + 3)) = lib_entries S luaopen_string"
    "entries (tables L' (?n + 4)) = lib_entries S luaopen_bit32"
    "entries (tables L' (?n + 6)) = lib_entries S luaopen_debug"
    using g t1 by (simp_all add: o2)
  have A: "\<forall>s \<in> {''package'', ''io'', ''os'', ''require'', ''dofile'', ''loadfile''}.
           luaH_get L' globals_ref (LString s) = LNil"
    using base by (simp add: luaH_get_def G sandbox_globals_def)
  have B: "luaH_get L' globals_ref (LString ''math'') = LTable (?n + 5)"
    "luaH_get L' (?n + 5) (LString ''random'') = LNil"
    "luaH_get L' (?n + 5) (LString ''randomseed'') = LNil"
    "luaH_get L' (?n + 5) (LString ''deg2rad'') = luaH_get L' (?n + 5) (LString ''rad'')"
    "luaH_get L' (?n + 5) (LString ''hash_random'') = LCFunction CF_l_hash_random"
    by (simp_all add: luaH_get_def G M sandbox_globals_def sandbox_math_def)
  show ?thesis
    using run2 s2 s1 G M T A B by simp
qed

theorem sandboxed_environment_witness:
  "\<exists>L'. pi_lua_open_standard_base demo_platform quiet_scripts (demo_state []) = Ok () L'
     \<and> stack L' = []
     \<and> entries (tables L' globals_ref) = sandbox_globals quiet_scripts 2
     \<and> luaH_get L' globals_ref (LString ''require'') = LNil
     \<and> luaH_get L' globals_ref (LString ''dofile'') = LNil
     \<and> luaH_get L' globals_ref (LString ''print'') = LCFunction (CF_library ''print'')
     \<and> luaH_get L' globals_ref (LString ''math'') = LTable 7
     \<and> luaH_get L' 7 (LString ''random'') = LNil
     \<and> luaH_get L' 7 (LString ''deg2rad'') = LCFunction (CF_library ''math.rad'')
     \<and> luaH_get L' 7 (LString ''hash_random'') = LCFunction CF_l_hash_random"
proof -
  have h: "entries (tables (demo_state []) globals_ref) = (\<lambda>k. LNil)"
    "metatable (tables (demo_state []) globals_ref) = None"
    "metatable (tables (demo_state []) registry_ref) = None"
    "luaH_get (demo_state []) registry_ref (LString ''_LOADED'') = LNil"
    "2 \<le> ntables (demo_state [])"
    "ttype (registered (library quiet_scripts luaopen_math) ''rad'') = LUA_TFUNCTION"
    "\<forall>s \<in> {''package'', ''io'', ''os'', ''require''}.
        registered (library quiet_scripts luaopen_base) s = LNil"
    by (simp_all add: demo_state_def luaH_get_def quiet_scripts_def demo_library_def registered_def)
  have n: "ntables (demo_state []) = 2" "stack (demo_state []) = []"
    by (simp_all add: demo_state_def)
  have r: "registered (library quiet_scripts luaopen_math) ''rad'' = LCFunction (CF_library ''math.rad'')"
    "registered (library quiet_scripts luaopen_base) ''print'' = LCFunction (CF_library ''print'')"
    "registered (library quiet_scripts luaopen_base) ''require'' = LNil"
    by (simp_all add: quiet_scripts_def demo_library_def registered_def)
  from sandboxed_environment [OF h, of demo_platform]
  obtain L' where "pi_lua_open_standard_base demo_platform quiet_scripts (demo_state []) = Ok () L'"
    "stack L' = []"
    "entries (tables L' globals_ref) = sandbox_globals quiet_scripts 2"
    "entries (tables L' 7) = sandbox_math quiet_scripts"
    unfolding n by auto
  then show ?thesis
    by (simp add: luaH_get_def sandbox_globals_def sandbox_math_def r)
qed

end
